theory Spec2Isabelle
  imports Main "HOL-Library.Sublist"
begin

section \<open>JavaScript strings\<close>

text \<open>
  A JavaScript string is modelled as a \<^typ>\<open>string\<close>: a list of code units. The functions
  below are the string primitives that \<^verbatim>\<open>json-parser.ts\<close> calls.
\<close>

abbreviation LF :: char where "LF \<equiv> CHR 0x0A"
abbreviation CR :: char where "CR \<equiv> CHR 0x0D"
abbreviation slash :: char where "slash \<equiv> CHR ''/''"
abbreviation tilde :: char where "tilde \<equiv> CHR ''~''"

text \<open>\<^verbatim>\<open>parts.join(sep)\<close>\<close>

fun join :: "string \<Rightarrow> string list \<Rightarrow> string" where
  "join sep [] = []"
| "join sep [x] = x"
| "join sep (x # y # ys) = x @ sep @ join sep (y # ys)"

text \<open>\<^verbatim>\<open>s.toLowerCase()\<close>, on the ASCII letters.\<close>

definition toLowerChar :: "char \<Rightarrow> char" where
  "toLowerChar c =
     (case map_of (zip ''ABCDEFGHIJKLMNOPQRSTUVWXYZ'' ''abcdefghijklmnopqrstuvwxyz'') c of
        Some l \<Rightarrow> l
      | None \<Rightarrow> c)"

definition toLowerCase :: "string \<Rightarrow> string" where
  "toLowerCase s = map toLowerChar s"

text \<open>\<^verbatim>\<open>s.includes(needle)\<close>: \<open>needle\<close> occurs in \<open>s\<close> as a contiguous run.\<close>

definition js_includes :: "string \<Rightarrow> string \<Rightarrow> bool" where
  "js_includes s needle = sublist needle s"

text \<open>\<^verbatim>\<open>s.replace(/c/g, r)\<close> for a single character \<open>c\<close>.\<close>

definition replace_all :: "char \<Rightarrow> string \<Rightarrow> string \<Rightarrow> string" where
  "replace_all c r s = concat (map (\<lambda>x. if x = c then r else [x]) s)"

text \<open>\<^verbatim>\<open>String(n)\<close> for a non-negative integer: its decimal digits.\<close>

definition digit_char :: "nat \<Rightarrow> char" where
  "digit_char d = ''0123456789'' ! d"

fun string_of_nat :: "nat \<Rightarrow> string" where
  "string_of_nat n =
     (if n < 10 then [digit_char n] else string_of_nat (n div 10) @ [digit_char (n mod 10)])"

declare string_of_nat.simps [simp del]

text \<open>
  \<^verbatim>\<open>s.split(/\r?\n/)\<close>: the pieces of \<open>s\<close> between line separators. The regular expression
  is tried at each position from the left, so a \<open>CR\<close> belongs to a separator exactly when
  the next code unit is \<open>LF\<close>. The result is never empty.
\<close>

fun push_front :: "char \<Rightarrow> string list \<Rightarrow> string list" where
  "push_front c [] = [[c]]"
| "push_front c (l # ls) = (c # l) # ls"

fun split_lines :: "string \<Rightarrow> string list" where
  "split_lines [] = [[]]"
| "split_lines (c # cs) =
     (if c = LF then [] # split_lines cs
      else if c = CR \<and> cs \<noteq> [] \<and> hd cs = LF then [] # split_lines (tl cs)
      else push_front c (split_lines cs))"


section \<open>Offset to position\<close>

text \<open>
  A value that the source tests with \<^verbatim>\<open>typeof x !== 'number'\<close>: either a number (offsets
  and lengths are integers) or something that is not a number.
\<close>

datatype js_number = Number int | NotANumber

text \<open>
  \<^verbatim>\<open>positionFromOffset(text, offset)\<close>, lines 203-213. The result is the pair
  \<open>(line, column)\<close>.
\<close>

definition positionFromOffset :: "string \<Rightarrow> js_number \<Rightarrow> nat \<times> nat" where
  "positionFromOffset text offset =
     (case offset of
        NotANumber \<Rightarrow> (0, 0)
      | Number n \<Rightarrow>
          if n < 0 \<or> n > int (length text) then (0, 0)
          else (let lines = split_lines (take (nat n) text)
                in (length lines, length (last lines) + 1)))"

text \<open>
  The index of the last occurrence of \<open>c\<close> in \<open>xs\<close>, if there is one; used to state what
  \<open>positionFromOffset\<close> computes.
\<close>

fun last_index_of :: "'a \<Rightarrow> 'a list \<Rightarrow> nat option" where
  "last_index_of c [] = None"
| "last_index_of c (x # xs) =
     (case last_index_of c xs of
        Some i \<Rightarrow> Some (Suc i)
      | None \<Rightarrow> if x = c then Some 0 else None)"

text \<open>
  The column as the specification words it: the offset minus the index of the last
  separator before the offset, plus 1. It is defined where the prefix holds a separator.
\<close>

definition column_as_specified :: "string \<Rightarrow> nat \<Rightarrow> nat option" where
  "column_as_specified text n =
     (case last_index_of LF (take n text) of
        None \<Rightarrow> None
      | Some i \<Rightarrow> Some (n - i + 1))"


section \<open>Validation issues and their summary\<close>

record ValidationIssue =
  message :: string
  suggestion :: "string option"
  jsonPointer :: string
  line :: nat
  column :: nat

record 'a ValidationResult =
  valid :: bool
  data :: "'a option"
  errors :: "ValidationIssue list"

record grouped_issues =
  missing :: "ValidationIssue list"
  invalid :: "ValidationIssue list"
  unexpected :: "ValidationIssue list"
  other :: "ValidationIssue list"

text \<open>The body of the loop of \<^verbatim>\<open>groupIssuesByCategory\<close>, lines 39-52.\<close>

definition group_step :: "grouped_issues \<Rightarrow> ValidationIssue \<Rightarrow> grouped_issues" where
  "group_step g issue =
     (if js_includes (toLowerCase (message issue)) ''missing'' \<or>
         js_includes (toLowerCase (message issue)) ''required''
      then g\<lparr>missing := missing g @ [issue]\<rparr>
      else if js_includes (toLowerCase (message issue)) ''unexpected''
      then g\<lparr>unexpected := unexpected g @ [issue]\<rparr>
      else if js_includes (toLowerCase (message issue)) ''invalid''
      then g\<lparr>invalid := invalid g @ [issue]\<rparr>
      else g\<lparr>other := other g @ [issue]\<rparr>)"

definition groupIssuesByCategory :: "ValidationIssue list \<Rightarrow> grouped_issues" where
  "groupIssuesByCategory issues =
     foldl group_step \<lparr>missing = [], invalid = [], unexpected = [], other = []\<rparr> issues"

text \<open>
  The light-bulb sign that precedes a suggestion, as its UTF-8 bytes, and the test
  \<^verbatim>\<open>if (issue.suggestion)\<close>: the field is set and is not the empty string.
\<close>

definition bulb :: string where
  "bulb = [CHR 0xF0, CHR 0x9F, CHR 0x92, CHR 0xA1]"

definition truthy :: "string option \<Rightarrow> bool" where
  "truthy s = (case s of None \<Rightarrow> False | Some t \<Rightarrow> t \<noteq> [])"

text \<open>The body of each \<^verbatim>\<open>forEach\<close> of \<^verbatim>\<open>createErrorSummary\<close>: the lines pushed for one issue.\<close>

definition issue_lines :: "ValidationIssue \<Rightarrow> string list" where
  "issue_lines issue =
     (''   - '' @ message issue) #
     (if truthy (suggestion issue) then [''      '' @ bulb @ '' '' @ the (suggestion issue)] else [])"

text \<open>One \<^verbatim>\<open>if (grouped.x.length > 0) { ... }\<close> block: the lines it pushes onto \<open>parts\<close>.\<close>

definition category_block :: "string \<Rightarrow> ValidationIssue list \<Rightarrow> string list" where
  "category_block header members =
     (if length members > 0 then (LF # header) # concat (map issue_lines members) else [])"

text \<open>\<^verbatim>\<open>createErrorSummary(issues)\<close>, lines 58-103.\<close>

definition createErrorSummary :: "ValidationIssue list \<Rightarrow> string" where
  "createErrorSummary issues =
     (let grouped = groupIssuesByCategory issues;
          parts = category_block ''Missing Required Fields:'' (missing grouped)
                @ category_block ''Invalid Values:'' (invalid grouped)
                @ category_block ''Unexpected Fields:'' (unexpected grouped)
                @ category_block ''Other Issues:'' (other grouped)
      in join [LF] parts)"

text \<open>
  The summary as section 4.8 of the specification describes it, written without the
  functions of the source. Two code units are the same letter up to case when they are equal
  or are the small and the capital form of one ASCII letter; a message contains a word
  case-insensitively when some contiguous run of it matches the word letter by letter up to
  case.
\<close>

datatype category = Missing | Invalid | Unexpected | Other

definition letter_pairs :: "(char \<times> char) list" where
  "letter_pairs = zip ''abcdefghijklmnopqrstuvwxyz'' ''ABCDEFGHIJKLMNOPQRSTUVWXYZ''"

definition same_letter :: "char \<Rightarrow> char \<Rightarrow> bool" where
  "same_letter a b = (a = b \<or> (a, b) \<in> set letter_pairs \<or> (b, a) \<in> set letter_pairs)"

definition contains_ci :: "string \<Rightarrow> string \<Rightarrow> bool" where
  "contains_ci s word =
     (\<exists>pre mid post. s = pre @ mid @ post \<and> list_all2 same_letter mid word)"

definition category_of :: "ValidationIssue \<Rightarrow> category" where
  "category_of issue =
     (if contains_ci (message issue) ''missing'' \<or> contains_ci (message issue) ''required''
      then Missing
      else if contains_ci (message issue) ''unexpected'' then Unexpected
      else if contains_ci (message issue) ''invalid'' then Invalid
      else Other)"

text \<open>
  The header line of a category; the bullet line of an issue, followed by an indented
  suggestion line when the issue has a suggestion that is not the empty string; and a list of
  lines joined by line feeds.
\<close>

definition category_header :: "category \<Rightarrow> string" where
  "category_header c =
     (case c of
        Missing \<Rightarrow> LF # ''Missing Required Fields:''
      | Invalid \<Rightarrow> LF # ''Invalid Values:''
      | Unexpected \<Rightarrow> LF # ''Unexpected Fields:''
      | Other \<Rightarrow> LF # ''Other Issues:'')"

definition rendered_issue :: "ValidationIssue \<Rightarrow> string list" where
  "rendered_issue issue =
     (case suggestion issue of
        None \<Rightarrow> [''   - '' @ message issue]
      | Some hint \<Rightarrow>
          if hint = [] then [''   - '' @ message issue]
          else [''   - '' @ message issue,
                ''      '' @ [CHR 0xF0, CHR 0x9F, CHR 0x92, CHR 0xA1] @ '' '' @ hint])"

fun newline_joined :: "string list \<Rightarrow> string" where
  "newline_joined [] = []"
| "newline_joined (l # ls) = l @ concat (map (\<lambda>x. LF # x) ls)"

text \<open>
  A category is rendered when it has an issue: its header, then its issues in the order of
  the input. The summary is the rendering of the four categories in their fixed order.
\<close>

definition summary_section :: "ValidationIssue list \<Rightarrow> category \<Rightarrow> string list" where
  "summary_section issues c =
     (let members = filter (\<lambda>i. category_of i = c) issues
      in if members = [] then [] else category_header c # concat (map rendered_issue members))"

definition summary_as_specified :: "ValidationIssue list \<Rightarrow> string" where
  "summary_as_specified issues =
     newline_joined (concat (map (summary_section issues) [Missing, Invalid, Unexpected, Other]))"


section \<open>JSON values and parse trees\<close>

text \<open>
  The dematerialised value of a document: objects, arrays and primitives. Numbers are
  abstracted to integers; no operation of the validator looks at a number's value.
\<close>

datatype json =
    JNull
  | JBool bool
  | JNum int
  | JStr string
  | JArr "json list"
  | JObj "(string \<times> json) list"

text \<open>
  The \<^verbatim>\<open>Node\<close> type of the package \<^verbatim>\<open>jsonc-parser\<close>, with the trees that its \<^verbatim>\<open>parseTree\<close> builds. A
  node has a type, an offset and a length in the text. The children of an object node are
  property nodes, one for each member in the order of the text. A property node spans the
  member from the opening quote of its key to the end of its value; its children are the key
  node, a string node whose \<^verbatim>\<open>value\<close> is the decoded key, and the value node. The children of an
  array node are the nodes of its elements. A node for a string, a number, a boolean or
  \<^verbatim>\<open>null\<close> carries that value in \<open>nvalue\<close> and has no children. The source guards against a
  missing child, an absent \<^verbatim>\<open>children\<close> array and an offset or length that is not a number, so
  a child is optional, absent children are the empty list, and offset and length are
  \<^typ>\<open>js_number\<close>.
\<close>

datatype NodeType = TObject | TArray | TProperty | TString | TNumber | TBoolean | TNull

datatype Node =
  Node (ntype: NodeType) (noffset: js_number) (nlength: js_number)
       (nvalue: "json option") (children: "Node option list")

text \<open>\<^verbatim>\<open>text.slice(start, end)\<close> for \<open>0 \<le> start \<le> end \<le> length text\<close>.\<close>

definition slice :: "string \<Rightarrow> int \<Rightarrow> int \<Rightarrow> string" where
  "slice text start end = take (nat (end - start)) (drop (nat start) text)"

text \<open>
  The escaping of one pointer segment, \<^verbatim>\<open>p.replace(/~/g, '~0').replace(/\//g, '~1')\<close>, used
  by both \<^verbatim>\<open>pathToPointer\<close> (line 139) and \<^verbatim>\<open>buildPointerMap\<close> (line 180).
\<close>

definition escape_segment :: "string \<Rightarrow> string" where
  "escape_segment p = replace_all slash ''~1'' (replace_all tilde ''~0'' p)"

text \<open>
  A segment of an issue path, \<^verbatim>\<open>string | number\<close>; \<open>segment_string\<close> is \<^verbatim>\<open>String(p)\<close>.
\<close>

datatype PathSegment = Key string | Index nat

definition segment_string :: "PathSegment \<Rightarrow> string" where
  "segment_string p = (case p of Key k \<Rightarrow> k | Index i \<Rightarrow> string_of_nat i)"

text \<open>\<^verbatim>\<open>pathToPointer(path)\<close>, lines 133-142.\<close>

definition pathToPointer :: "PathSegment list \<Rightarrow> string" where
  "pathToPointer path =
     (if path = [] then []
      else slash # join [slash] (map escape_segment (map segment_string path)))"

text \<open>
  Lines 164-179 of \<^verbatim>\<open>buildPointerMap\<close>: the key that the builder reads off the node it takes
  for a key node. The node must exist with a numeric offset and length, and the bounds
  \<^verbatim>\<open>keyStart = offset + 1\<close>, \<^verbatim>\<open>keyEnd = offset + length - 1\<close> must satisfy
  \<^verbatim>\<open>keyStart >= 0 && keyEnd <= text.length && keyStart <= keyEnd\<close>; the key is then the slice
  of the text between them. Otherwise the pair is skipped.
\<close>

definition decode_key :: "string \<Rightarrow> Node option \<Rightarrow> string option" where
  "decode_key text keyNode =
     (case keyNode of
        None \<Rightarrow> None
      | Some k \<Rightarrow>
          (case (noffset k, nlength k) of
             (Number off, Number len) \<Rightarrow>
               (let keyStart = off + 1; keyEnd = off + len - 1
                in if keyStart \<ge> 0 \<and> keyEnd \<le> int (length text) \<and> keyStart \<le> keyEnd
                   then Some (slice text keyStart keyEnd)
                   else None)
           | _ \<Rightarrow> None))"

text \<open>
  \<^verbatim>\<open>buildPointerMap(node, text, pointer)\<close>, lines 144-201. The result maps a pointer to the
  offset stored for it; \<^verbatim>\<open>Object.assign(map, m)\<close> is \<open>map ++ m\<close>. \<open>object_children\<close> is the
  loop of lines 159-188 over the children of an object node: it advances by two, takes
  \<^verbatim>\<open>children[i]\<close> for the key node and \<^verbatim>\<open>children[i + 1]\<close> for the value node, and skips the
  step when one of them is missing (\<^verbatim>\<open>children[i + 1]\<close> is undefined past the end).
  \<open>array_children\<close> is the \<^verbatim>\<open>forEach\<close> over an array's children with its running index
  (lines 192-197). A node of any other type, a property node among them, gets its entry and
  nothing below it.
\<close>

fun buildPointerMap :: "Node option \<Rightarrow> string \<Rightarrow> string \<Rightarrow> (string \<rightharpoonup> int)"
  and object_children ::
    "Node option list \<Rightarrow> string \<Rightarrow> string \<Rightarrow> (string \<rightharpoonup> int) \<Rightarrow> (string \<rightharpoonup> int)"
  and array_children ::
    "Node option list \<Rightarrow> nat \<Rightarrow> string \<Rightarrow> string \<Rightarrow> (string \<rightharpoonup> int) \<Rightarrow> (string \<rightharpoonup> int)"
where
  "buildPointerMap None text pointer = Map.empty"
| "buildPointerMap (Some (Node type offset len val childs)) text pointer =
     (case offset of
        NotANumber \<Rightarrow> Map.empty
      | Number off \<Rightarrow>
          (let m0 = [pointer \<mapsto> off];
               m1 = (if type = TObject then object_children childs text pointer m0 else m0);
               m2 = (if type = TArray then array_children childs 0 text pointer m1 else m1)
           in m2))"
| "object_children (keyNode # valueNode # rest) text pointer m =
     object_children rest text pointer
       (case decode_key text keyNode of
          None \<Rightarrow> m
        | Some key \<Rightarrow>
            (case valueNode of
               None \<Rightarrow> m
             | Some v \<Rightarrow>
                 m ++ buildPointerMap valueNode text (pointer @ [slash] @ escape_segment key)))"
| "object_children [keyNode] text pointer m = m"
| "object_children [] text pointer m = m"
| "array_children [] index text pointer m = m"
| "array_children (child # rest) index text pointer m =
     array_children rest (Suc index) text pointer
       (case child of
          None \<Rightarrow> m
        | Some c \<Rightarrow> m ++ buildPointerMap child text (pointer @ [slash] @ string_of_nat index))"

text \<open>
  \<^verbatim>\<open>getNodeValue\<close> of the package \<^verbatim>\<open>jsonc-parser\<close>: the dematerialised value of a tree. For an
  object node it runs over the property nodes and assigns the value of the second child of
  each, when there is one, to the key that the first child carries, so a later duplicate
  replaces the value of an earlier one and keeps its place; for an array node it maps over the
  children; for any other node it returns the node's \<^verbatim>\<open>value\<close>. The function is applied to the
  root and to value nodes, which carry a value whenever they are neither objects nor arrays.
\<close>

fun assign :: "(string \<times> json) list \<Rightarrow> string \<Rightarrow> json \<Rightarrow> (string \<times> json) list" where
  "assign [] k v = [(k, v)]"
| "assign ((k', v') # kvs) k v = (if k' = k then (k, v) # kvs else (k', v') # assign kvs k v)"

definition key_string :: "Node option \<Rightarrow> string option" where
  "key_string keyNode =
     (case keyNode of
        Some k \<Rightarrow> (case nvalue k of Some (JStr s) \<Rightarrow> Some s | _ \<Rightarrow> None)
      | None \<Rightarrow> None)"

fun node_value :: "Node \<Rightarrow> json"
  and members_value :: "Node option list \<Rightarrow> (string \<times> json) list \<Rightarrow> (string \<times> json) list"
  and elements_value :: "Node option list \<Rightarrow> json list"
where
  "node_value (Node type offset len val childs) =
     (if type = TObject then JObj (members_value childs [])
      else if type = TArray then JArr (elements_value childs)
      else (case val of Some v \<Rightarrow> v | None \<Rightarrow> JNull))"
| "members_value [] obj = obj"
| "members_value (prop # rest) obj =
     members_value rest
       (case prop of
          None \<Rightarrow> obj
        | Some (Node ptype poffset plen pval pchilds) \<Rightarrow>
            (case pchilds of
               keyNode # Some v # further \<Rightarrow>
                 (case key_string keyNode of
                    None \<Rightarrow> obj
                  | Some key \<Rightarrow> assign obj key (node_value v))
             | _ \<Rightarrow> obj))"
| "elements_value (Some c # rest) = node_value c # elements_value rest"
| "elements_value [] = []"
| "elements_value (None # rest) = elements_value rest"


section \<open>Schemas, the schema engine and its issues\<close>

text \<open>
  The issues of the package \<^verbatim>\<open>zod\<close> (\<^verbatim>\<open>ZodIssue\<close>): a path, a code (the constructor), a message
  and fields that depend on the code. The source reads \<^verbatim>\<open>code\<close>, \<^verbatim>\<open>path\<close>, \<^verbatim>\<open>message\<close>,
  \<^verbatim>\<open>expected\<close>, \<^verbatim>\<open>received\<close> and \<^verbatim>\<open>unionErrors\<close> (one issue list per rejected alternative);
  \<open>OtherIssue\<close> stands for every other code.
\<close>

datatype ZodIssue =
    InvalidType (zpath: "PathSegment list") (zmessage: string) (expected: string) (received: string)
  | UnrecognizedKeys (zpath: "PathSegment list") (zmessage: string) (zkeys: "string list")
  | InvalidUnion (zpath: "PathSegment list") (zmessage: string) (unionErrors: "ZodIssue list list")
  | OtherIssue (zpath: "PathSegment list") (zmessage: string)

abbreviation apostrophe :: char where "apostrophe \<equiv> CHR 0x27"
abbreviation dquote :: char where "dquote \<equiv> CHR 0x22"

text \<open>
  What a call can throw: an \<^verbatim>\<open>Error\<close> with its message, or a value that is not an \<^verbatim>\<open>Error\<close>;
  \<open>error_message\<close> is \<^verbatim>\<open>error instanceof Error ? error.message : 'Unknown error'\<close>. A schema
  evaluation fails with a \<^verbatim>\<open>ZodError\<close> that carries issues, or with anything else.
\<close>

datatype thrown = Error string | NotAnError

definition error_message :: "thrown \<Rightarrow> string" where
  "error_message e = (case e of Error m \<Rightarrow> m | NotAnError \<Rightarrow> ''Unknown error'')"

datatype parse_failure = ZodError "ZodIssue list" | OtherFailure thrown

text \<open>
  The schema objects of the package \<^verbatim>\<open>zod\<close> (version 3), for the kinds of schema below. An object
  schema has a shape, which maps field names to child schemas in a fixed order, and a policy
  for the keys that the shape does not declare: \<open>Strip\<close> is the policy of \<^verbatim>\<open>z.object(...)\<close>,
  \<open>Passthrough\<close> the one of \<^verbatim>\<open>.passthrough()\<close> and \<open>Strict\<close> the one of \<^verbatim>\<open>.strict()\<close>. An array
  schema has an element schema, a union at least one alternative. \<open>ZodOptional\<close> is the wrapper
  that \<^verbatim>\<open>.optional()\<close> puts around a schema, as the schemas of the repository do for most
  fields. \<open>ZodAnyTransform r\<close> is \<^verbatim>\<open>z.any().transform(f)\<close>, a schema that holds code of the caller,
  for a callback \<open>f\<close> that does not look at the value it is given: \<open>r\<close> is what \<open>f\<close> throws
  or the value it returns.
\<close>

datatype UnknownKeys = Strip | Passthrough | Strict

datatype ZodTypeAny =
    ZodString
  | ZodNumber
  | ZodBoolean
  | ZodNull
  | ZodObject "(string \<times> ZodTypeAny) list" UnknownKeys
  | ZodArray ZodTypeAny
  | ZodUnion ZodTypeAny "ZodTypeAny list"
  | ZodOptional ZodTypeAny
  | ZodAnyTransform "parse_failure + json"

text \<open>
  The strict schema of a schema as section 4.4 of the specification describes it: the same
  schema with the policy closed at this node and, recursively, at every object schema that is
  reached through fields of object schemas and elements of array schemas; every other schema
  is left as it is.
\<close>

fun strict_schema :: "ZodTypeAny \<Rightarrow> ZodTypeAny" where
  "strict_schema (ZodObject shape uk) =
     ZodObject (map (\<lambda>(key, child). (key, strict_schema child)) shape) Strict"
| "strict_schema (ZodArray inner) = ZodArray (strict_schema inner)"
| "strict_schema schema = schema"

text \<open>
  The issues that the package raises with its default messages. A value is optional: a field
  that is absent from an object is evaluated as \<^verbatim>\<open>undefined\<close>, and a type mismatch on it has the
  message \<^verbatim>\<open>Required\<close>. The keys of an object that a strict shape does not declare are reported
  by one issue, at the path of the object, which lists them.
\<close>

definition json_type :: "json option \<Rightarrow> string" where
  "json_type d =
     (case d of
        None \<Rightarrow> ''undefined''
      | Some JNull \<Rightarrow> ''null''
      | Some (JBool b) \<Rightarrow> ''boolean''
      | Some (JNum n) \<Rightarrow> ''number''
      | Some (JStr s) \<Rightarrow> ''string''
      | Some (JArr vs) \<Rightarrow> ''array''
      | Some (JObj kvs) \<Rightarrow> ''object'')"

definition type_mismatch :: "PathSegment list \<Rightarrow> string \<Rightarrow> json option \<Rightarrow> ZodIssue" where
  "type_mismatch p wanted d =
     InvalidType p
       (if d = None then ''Required''
        else ''Expected '' @ wanted @ '', received '' @ json_type d)
       wanted (json_type d)"

definition unrecognized_keys :: "PathSegment list \<Rightarrow> string list \<Rightarrow> ZodIssue" where
  "unrecognized_keys p ks =
     UnrecognizedKeys p
       (''Unrecognized key(s) in object: '' @
        join '', '' (map (\<lambda>k. [apostrophe] @ k @ [apostrophe]) ks))
       ks"

text \<open>
  What the evaluation of a schema on a value returns inside the package (\<^verbatim>\<open>_parse\<close>): a status,
  the issues it added, and the parsed value. The status is \<open>Valid\<close>, \<open>Dirty\<close> (issues were
  added, and the evaluation went on) or \<open>Aborted\<close> (no value). An object or an array is
  aborted when one of its parts is, and dirty when one of its parts is or when it added an
  issue of its own (\<open>merge_status\<close>). A callback that throws ends the whole evaluation at once
  (\<open>collect\<close> keeps the first failure of a sequence of evaluations).
\<close>

datatype status = Valid | Dirty | Aborted

type_synonym parse_return = "status \<times> ZodIssue list \<times> json option"

definition merge_status :: "status \<Rightarrow> status list \<Rightarrow> status" where
  "merge_status own parts =
     (if Aborted \<in> set parts then Aborted
      else if own = Dirty \<or> Dirty \<in> set parts then Dirty
      else Valid)"

fun collect :: "('e + 'a) list \<Rightarrow> 'e + 'a list" where
  "collect [] = Inr []"
| "collect (r # rs) =
     (case r of
        Inl e \<Rightarrow> Inl e
      | Inr x \<Rightarrow> (case collect rs of Inl e \<Rightarrow> Inl e | Inr xs \<Rightarrow> Inr (x # xs)))"

text \<open>
  The loop of a union over the results of its alternatives, in order: the first valid result
  is returned, and a callback that throws before one is found ends the evaluation. Without a
  valid result the union returns the first dirty one with its issues; without a dirty one it
  is aborted with one \<^verbatim>\<open>invalid_union\<close> issue that holds the issue lists of the alternatives.
\<close>

fun union_return ::
  "PathSegment list \<Rightarrow> (parse_failure + parse_return) list \<Rightarrow> parse_return option \<Rightarrow>
     ZodIssue list list \<Rightarrow> parse_failure + parse_return" where
  "union_return p [] dirty issues =
     (case dirty of
        Some r \<Rightarrow> Inr r
      | None \<Rightarrow> Inr (Aborted, [InvalidUnion p ''Invalid input'' issues], None))"
| "union_return p (r # rs) dirty issues =
     (case r of
        Inl failure \<Rightarrow> Inl failure
      | Inr (st, found, v) \<Rightarrow>
          if st = Valid then Inr (Valid, [], v)
          else union_return p rs
                 (if st = Dirty \<and> dirty = None then Some (st, found, v) else dirty)
                 (if found = [] then issues else issues @ [found]))"

text \<open>
  The evaluation of a schema on the value at a path. A scalar schema accepts the values of
  its type. An object schema evaluates each field of its shape, in order, on the member of
  that name; under the strict policy it then adds the issue for the keys that the shape does
  not declare. Its value holds the fields that have a value, in the order of the shape, and
  under the passthrough policy the other members of the object after them. An array schema
  evaluates its element schema on each element. An optional schema accepts \<^verbatim>\<open>undefined\<close> and
  otherwise evaluates the schema it wraps. \<^verbatim>\<open>z.any().transform(f)\<close> accepts every value and
  calls \<open>f\<close>.
\<close>

fun zod_run :: "ZodTypeAny \<Rightarrow> PathSegment list \<Rightarrow> json option \<Rightarrow> parse_failure + parse_return"
where
  "zod_run ZodString p d =
     (case d of
        Some (JStr s) \<Rightarrow> Inr (Valid, [], d)
      | _ \<Rightarrow> Inr (Aborted, [type_mismatch p ''string'' d], None))"
| "zod_run ZodNumber p d =
     (case d of
        Some (JNum n) \<Rightarrow> Inr (Valid, [], d)
      | _ \<Rightarrow> Inr (Aborted, [type_mismatch p ''number'' d], None))"
| "zod_run ZodBoolean p d =
     (case d of
        Some (JBool b) \<Rightarrow> Inr (Valid, [], d)
      | _ \<Rightarrow> Inr (Aborted, [type_mismatch p ''boolean'' d], None))"
| "zod_run ZodNull p d =
     (case d of
        Some JNull \<Rightarrow> Inr (Valid, [], d)
      | _ \<Rightarrow> Inr (Aborted, [type_mismatch p ''null'' d], None))"
| "zod_run (ZodObject shape uk) p d =
     (case d of
        Some (JObj kvs) \<Rightarrow>
          (case collect
                  (map (\<lambda>(key, child). zod_run child (p @ [Key key]) (map_of kvs key)) shape) of
             Inl failure \<Rightarrow> Inl failure
           | Inr results \<Rightarrow>
               (let extraKeys = filter (\<lambda>k. k \<notin> fst ` set shape) (map fst kvs);
                    unrecognized =
                      (if uk = Strict \<and> extraKeys \<noteq> [] then [unrecognized_keys p extraKeys]
                       else []);
                    st = merge_status (if unrecognized = [] then Valid else Dirty)
                           (map fst results);
                    known = concat (map (\<lambda>(key, v). case v of Some x \<Rightarrow> [(key, x)] | None \<Rightarrow> [])
                                      (zip (map fst shape) (map (snd \<circ> snd) results)));
                    extra = (if uk = Passthrough
                             then filter (\<lambda>(k, v). k \<notin> fst ` set shape) kvs else [])
                in Inr (st, concat (map (fst \<circ> snd) results) @ unrecognized,
                        if st = Aborted then None else Some (JObj (known @ extra)))))
      | _ \<Rightarrow> Inr (Aborted, [type_mismatch p ''object'' d], None))"
| "zod_run (ZodArray inner) p d =
     (case d of
        Some (JArr vs) \<Rightarrow>
          (case collect
                  (map (\<lambda>(i, v). zod_run inner (p @ [Index i]) (Some v)) (enumerate 0 vs)) of
             Inl failure \<Rightarrow> Inl failure
           | Inr results \<Rightarrow>
               (let st = merge_status Valid (map fst results)
                in Inr (st, concat (map (fst \<circ> snd) results),
                        if st = Aborted then None
                        else Some (JArr (concat (map (\<lambda>(s, found, v).
                                                        case v of Some x \<Rightarrow> [x] | None \<Rightarrow> [])
                                                   results))))))
      | _ \<Rightarrow> Inr (Aborted, [type_mismatch p ''array'' d], None))"
| "zod_run (ZodUnion first others) p d =
     union_return p (map (\<lambda>option. zod_run option p d) (first # others)) None []"
| "zod_run (ZodOptional inner) p d =
     (case d of None \<Rightarrow> Inr (Valid, [], None) | Some v \<Rightarrow> zod_run inner p d)"
| "zod_run (ZodAnyTransform r) p d =
     (case r of Inl failure \<Rightarrow> Inl failure | Inr v \<Rightarrow> Inr (Valid, [], Some v))"

text \<open>
  The issues that the evaluation of a schema adds when it returns, and \<^verbatim>\<open>schema.parse(data)\<close>: it
  returns the parsed value of a valid evaluation (the value of a valid evaluation of a defined
  value is defined), and otherwise throws a \<^verbatim>\<open>ZodError\<close> with the issues; the package throws
  an \<^verbatim>\<open>Error\<close> of its own when it finds none. What a callback throws leaves \<^verbatim>\<open>parse\<close> as it is.
\<close>

definition zod_issues :: "ZodTypeAny \<Rightarrow> PathSegment list \<Rightarrow> json option \<Rightarrow> ZodIssue list" where
  "zod_issues schema p d =
     (case zod_run schema p d of
        Inl failure \<Rightarrow> []
      | Inr (st, issues, v) \<Rightarrow> issues)"

definition zod_parse :: "ZodTypeAny \<Rightarrow> json \<Rightarrow> parse_failure + json" where
  "zod_parse schema d =
     (case zod_run schema [] (Some d) of
        Inl failure \<Rightarrow> Inl failure
      | Inr (st, issues, v) \<Rightarrow>
          if st = Valid then Inr (case v of Some parsed \<Rightarrow> parsed | None \<Rightarrow> d)
          else if issues = []
          then Inl (OtherFailure (Error ''Validation failed but no issues detected.''))
          else Inl (ZodError issues))"


section \<open>The validation orchestrator\<close>

text \<open>
  \<^verbatim>\<open>handleIssue\<close>, lines 313-336: the pointer of the issue's path, the position of the pointer's
  entry in the pointer map (or \<open>(0, 0)\<close>), and the suggestion. \<open>last_segment\<close> is
  \<^verbatim>\<open>issue.path[issue.path.length - 1]\<close> inside the template string, which reads
  \<^verbatim>\<open>undefined\<close> on the empty path. \<open>em_dash\<close> is the dash of the second suggestion, as
  its UTF-8 bytes.
\<close>

definition last_segment :: "PathSegment list \<Rightarrow> string" where
  "last_segment path = (if path = [] then ''undefined'' else segment_string (last path))"

definition em_dash :: string where
  "em_dash = [CHR 0xE2, CHR 0x80, CHR 0x94]"

definition remove_suggestion :: string where
  "remove_suggestion = ''Remove this field '' @ em_dash @ '' it is not allowed by the schema''"

definition suggestion_for :: "ZodIssue \<Rightarrow> string option" where
  "suggestion_for issue =
     (if js_includes (toLowerCase (zmessage issue)) ''required''
      then Some (''Add missing field: '' @ [dquote] @ last_segment (zpath issue) @ [dquote])
      else (case issue of
              UnrecognizedKeys p m ks \<Rightarrow> Some remove_suggestion
            | InvalidType p m e r \<Rightarrow>
                Some (''Expected type '' @ [apostrophe] @ e @ [apostrophe] @ '', got '' @
                      [apostrophe] @ r @ [apostrophe])
            | _ \<Rightarrow> None))"

definition handleIssue :: "string \<Rightarrow> (string \<rightharpoonup> int) \<Rightarrow> ZodIssue \<Rightarrow> ValidationIssue" where
  "handleIssue jsonText pointerMap issue =
     (let pointer = pathToPointer (zpath issue);
          loc = (case pointerMap pointer of
                   Some off \<Rightarrow> positionFromOffset jsonText (Number off)
                 | None \<Rightarrow> (0, 0))
      in \<lparr>message = ''Validation error: '' @ zmessage issue,
          suggestion = suggestion_for issue,
          jsonPointer = pointer,
          line = fst loc,
          column = snd loc\<rparr>)"

text \<open>
  Lines 339-349: the native issues that are handed to \<open>handleIssue\<close>, in order. An
  \<^verbatim>\<open>invalid_union\<close> issue is replaced by the issues of its alternatives; every other issue is
  taken as it is.
\<close>

definition issues_to_handle :: "ZodIssue list \<Rightarrow> ZodIssue list" where
  "issues_to_handle issues =
     concat (map (\<lambda>issue. case issue of
                            InvalidUnion p m alternatives \<Rightarrow> concat alternatives
                          | _ \<Rightarrow> [issue]) issues)"

text \<open>
  The calls that leave the repository. \<open>parseTree\<close> returns the tree, if any, and the syntax
  errors it collected (each an error code, an offset and a length), or throws;
  \<open>printParseErrorCode\<close> names an error code; \<open>getNodeValue\<close> evaluates a tree, or throws;
  \<open>array_element schema inner\<close> is the call \<^verbatim>\<open>schema.element(inner)\<close> on an array schema (line
  126): the schema it returns, or what it throws; \<open>schema_parse\<close> is \<^verbatim>\<open>schema.parse(data)\<close>: the
  parsed value, or what it throws.
\<close>

record ParseError =
  error_code :: nat
  error_offset :: js_number
  error_length :: int

record externals =
  parseTree :: "string \<Rightarrow> thrown + (Node option \<times> ParseError list)"
  printParseErrorCode :: "nat \<Rightarrow> string"
  getNodeValue :: "Node \<Rightarrow> thrown + json"
  array_element :: "ZodTypeAny \<Rightarrow> ZodTypeAny \<Rightarrow> thrown + ZodTypeAny"
  schema_parse :: "ZodTypeAny \<Rightarrow> json \<Rightarrow> parse_failure + json"

text \<open>
  \<^verbatim>\<open>deepStrict(schema)\<close>, lines 109-130. For an object schema, \<^verbatim>\<open>schema.strict()\<close> gives the
  schema with the strict policy, and the loop of lines 117-119 replaces each entry of its
  shape, in order, by the result of the recursive call (\<open>strict_shape\<close>). For an array
  schema the element is strictified and handed to \<^verbatim>\<open>schema.element\<close>. Every other schema is
  returned as it is. What a call throws leaves the function at once.
\<close>

fun deepStrict :: "externals \<Rightarrow> ZodTypeAny \<Rightarrow> thrown + ZodTypeAny"
  and strict_shape ::
    "externals \<Rightarrow> (string \<times> ZodTypeAny) list \<Rightarrow> thrown + (string \<times> ZodTypeAny) list"
where
  "deepStrict E (ZodObject shape uk) =
     (case strict_shape E shape of
        Inl e \<Rightarrow> Inl e
      | Inr shape' \<Rightarrow> Inr (ZodObject shape' Strict))"
| "deepStrict E (ZodArray inner) =
     (case deepStrict E inner of
        Inl e \<Rightarrow> Inl e
      | Inr inner' \<Rightarrow> array_element E (ZodArray inner) inner')"
| "deepStrict E ZodString = Inr ZodString"
| "deepStrict E ZodNumber = Inr ZodNumber"
| "deepStrict E ZodBoolean = Inr ZodBoolean"
| "deepStrict E ZodNull = Inr ZodNull"
| "deepStrict E (ZodUnion first others) = Inr (ZodUnion first others)"
| "deepStrict E (ZodOptional inner) = Inr (ZodOptional inner)"
| "deepStrict E (ZodAnyTransform r) = Inr (ZodAnyTransform r)"
| "strict_shape E [] = Inr []"
| "strict_shape E ((key, child) # rest) =
     (case deepStrict E child of
        Inl e \<Rightarrow> Inl e
      | Inr child' \<Rightarrow>
          (case strict_shape E rest of
             Inl e \<Rightarrow> Inl e
           | Inr rest' \<Rightarrow> Inr ((key, child') # rest')))"

text \<open>The argument \<^verbatim>\<open>jsonText\<close>, which line 220 tests with \<^verbatim>\<open>typeof\<close>.\<close>

datatype js_value = JsString string | JsOther

text \<open>A result with \<^verbatim>\<open>valid: false\<close> and one issue without a position (lines 221-231 and alike).\<close>

definition single_failure :: "string \<Rightarrow> string \<Rightarrow> json ValidationResult" where
  "single_failure msg pointer =
     \<lparr>valid = False, data = None,
      errors = [\<lparr>message = msg, suggestion = None, jsonPointer = pointer, line = 0, column = 0\<rparr>]\<rparr>"

text \<open>Lines 257-265: the issue of one syntax error.\<close>

definition syntax_issue :: "externals \<Rightarrow> string \<Rightarrow> ParseError \<Rightarrow> ValidationIssue" where
  "syntax_issue E jsonText e =
     (let loc = positionFromOffset jsonText (error_offset e)
      in \<lparr>message = ''Syntax error: '' @ printParseErrorCode E (error_code e),
          suggestion = None,
          jsonPointer = [],
          line = fst loc,
          column = snd loc\<rparr>)"

text \<open>
  \<^verbatim>\<open>validateJson(jsonText, schema)\<close>, lines 218-364. Every \<^verbatim>\<open>try\<close> block is a case
  distinction on what the call inside it returned or threw.
\<close>

definition validateJson :: "externals \<Rightarrow> js_value \<Rightarrow> ZodTypeAny \<Rightarrow> json ValidationResult" where
  "validateJson E jsonText schema =
     (case jsonText of
        JsOther \<Rightarrow> single_failure ''Invalid input: expected string'' []
      | JsString text \<Rightarrow>
          (case parseTree E text of
             Inl e \<Rightarrow> single_failure (''Parse error: '' @ error_message e) []
           | Inr (tree, errs) \<Rightarrow>
               if length errs > 0 \<or> tree = None
               then \<lparr>valid = False, data = None, errors = map (syntax_issue E text) errs\<rparr>
               else
                 (case getNodeValue E (the tree) of
                    Inl e \<Rightarrow>
                      single_failure (''Error processing JSON structure: '' @ error_message e) []
                  | Inr d \<Rightarrow>
                      (let pointerMap = buildPointerMap tree text []
                       in case deepStrict E schema of
                            Inl e \<Rightarrow> single_failure (''Schema error: '' @ error_message e) []
                          | Inr strictSchema \<Rightarrow>
                              (case schema_parse E strictSchema d of
                                 Inr parsed \<Rightarrow> \<lparr>valid = True, data = Some parsed, errors = []\<rparr>
                               | Inl (ZodError issues) \<Rightarrow>
                                   \<lparr>valid = False, data = None,
                                    errors = map (handleIssue text pointerMap)
                                               (issues_to_handle issues)\<rparr>
                               | Inl (OtherFailure e) \<Rightarrow>
                                   single_failure (''Validation error: '' @ error_message e)
                                     ''root'')))))"

text \<open>
  \<^verbatim>\<open>validateJsonFile(filePath, schema, fileEncoding)\<close>, lines 369-390. \<open>readFileSync\<close> is
  \<^verbatim>\<open>fs.readFileSync\<close>: the contents of the file, or what it threw.
\<close>

definition validateJsonFile ::
  "externals \<Rightarrow> (string \<Rightarrow> string \<Rightarrow> thrown + string) \<Rightarrow> string \<Rightarrow> ZodTypeAny \<Rightarrow> string
     \<Rightarrow> json ValidationResult" where
  "validateJsonFile E readFileSync filePath schema fileEncoding =
     (case readFileSync filePath fileEncoding of
        Inr raw \<Rightarrow> validateJson E (JsString raw) schema
      | Inl e \<Rightarrow> single_failure (''File error: '' @ error_message e) [])"

text \<open>
  The outside calls as the packages answer them, for a given parser: the tree evaluation and
  the schema engine are the ones above. In \<^verbatim>\<open>zod\<close> the member \<^verbatim>\<open>element\<close> of an array schema is a
  property that holds the element schema, not a method, so the call \<^verbatim>\<open>schema.element(inner)\<close>
  throws a \<^verbatim>\<open>TypeError\<close>.
\<close>

definition reference_externals ::
  "(string \<Rightarrow> thrown + (Node option \<times> ParseError list)) \<Rightarrow> (nat \<Rightarrow> string) \<Rightarrow> externals" where
  "reference_externals parser code_name =
     \<lparr>parseTree = parser, printParseErrorCode = code_name,
      getNodeValue = (\<lambda>n. Inr (node_value n)),
      array_element = (\<lambda>schema inner. Inl (Error ''schema.element is not a function'')),
      schema_parse = zod_parse\<rparr>"


section \<open>Schema objects in a store\<close>

text \<open>
  Modelled from the spec: the schema objects of \<^verbatim>\<open>zod\<close>, which is not part of the repository, as
  objects in a store, to follow what \<^verbatim>\<open>deepStrict\<close> does to the schema object it is given. Section 3
  of the specification: an object schema owns a mapping from field name to child schema and an
  unknown-keys policy, an array schema owns one element schema. The source reads the mapping as
  the object \<^verbatim>\<open>strictObj._def.shape()\<close> and assigns into it (line 118), so the mapping is an
  object of its own in the store. A schema that is neither an object nor an array schema is
  kept as a value: \<^verbatim>\<open>deepStrict\<close> never looks inside it.
\<close>

type_synonym ref = nat

datatype StoredSchema =
    StoredObject ref UnknownKeys
  | StoredArray ref
  | StoredOther ZodTypeAny

record store =
  schema_at :: "ref \<rightharpoonup> StoredSchema"
  shape_at :: "ref \<rightharpoonup> (string \<times> ref) list"
  next_ref :: ref

text \<open>A new schema object: \<^verbatim>\<open>new ZodObject(...)\<close>, \<^verbatim>\<open>new ZodArray(...)\<close>.\<close>

definition allocate :: "StoredSchema \<Rightarrow> store \<Rightarrow> ref \<times> store" where
  "allocate s st =
     (next_ref st, st\<lparr>schema_at := (schema_at st)(next_ref st \<mapsto> s), next_ref := Suc (next_ref st)\<rparr>)"

text \<open>\<^verbatim>\<open>shape[key] = child\<close> on the entries of a shape.\<close>

fun assign_ref :: "(string \<times> ref) list \<Rightarrow> string \<Rightarrow> ref \<Rightarrow> (string \<times> ref) list" where
  "assign_ref [] k v = [(k, v)]"
| "assign_ref ((k', v') # kvs) k v = (if k' = k then (k, v) # kvs else (k', v') # assign_ref kvs k v)"

definition shape_of :: "store \<Rightarrow> ref \<Rightarrow> (string \<times> ref) list" where
  "shape_of st sh = (case shape_at st sh of Some kvs \<Rightarrow> kvs | None \<Rightarrow> [])"

text \<open>
  \<^verbatim>\<open>deepStrict(schema)\<close>, lines 109-130, on the store. \<^verbatim>\<open>schema.strict()\<close> makes a new object schema
  from the definition of \<^verbatim>\<open>schema\<close> with the policy strict: its shape is the same mapping object.
  The loop of lines 117-119 runs over the keys the shape had when the loop began and assigns
  the strictified child to each entry. For an array schema the element schema is strictified,
  and then the call \<^verbatim>\<open>schema.element(inner)\<close> throws, since \<^verbatim>\<open>element\<close> is not a method of an array
  schema. What is thrown leaves the function at once. The result is the schema object that is
  returned, or what is thrown, together with the store after the call. The first argument
  bounds the depth of the recursion (the call stack): schema objects can refer to each other in
  a cycle, and then the recursion does not return.
\<close>

fun deepStrict_store :: "nat \<Rightarrow> ref \<Rightarrow> store \<Rightarrow> ((thrown + ref) \<times> store) option" where
  "deepStrict_store 0 schema st = None"
| "deepStrict_store (Suc depth) schema st =
     (case schema_at st schema of
        Some (StoredObject sh uk) \<Rightarrow>
          (let (strictObj, st1) = allocate (StoredObject sh Strict) st
           in foldl
                (\<lambda>acc key.
                   case acc of
                     Some (Inr obj, s) \<Rightarrow>
                       (case map_of (shape_of s sh) key of
                          None \<Rightarrow> acc
                        | Some child \<Rightarrow>
                            (case deepStrict_store depth child s of
                               None \<Rightarrow> None
                             | Some (Inl e, s') \<Rightarrow> Some (Inl e, s')
                             | Some (Inr child', s') \<Rightarrow>
                                 Some (Inr obj,
                                       s'\<lparr>shape_at := (shape_at s')
                                            (sh \<mapsto> assign_ref (shape_of s' sh) key child')\<rparr>)))
                   | _ \<Rightarrow> acc)
                (Some (Inr strictObj, st1)) (map fst (shape_of st1 sh)))
      | Some (StoredArray inner) \<Rightarrow>
          (case deepStrict_store depth inner st of
             Some (Inr inner', st1) \<Rightarrow>
               Some (Inl (Error ''schema.element is not a function''), st1)
           | thrown_or_none \<Rightarrow> thrown_or_none)
      | Some (StoredOther s) \<Rightarrow> Some (Inr schema, st)
      | None \<Rightarrow> None)"

text \<open>The schema value that a schema object stands for, read off the store.\<close>

fun read_schema :: "nat \<Rightarrow> store \<Rightarrow> ref \<Rightarrow> ZodTypeAny option" where
  "read_schema 0 st r = None"
| "read_schema (Suc depth) st r =
     (case schema_at st r of
        Some (StoredObject sh uk) \<Rightarrow>
          (let fields = map (\<lambda>(k, c). (k, read_schema depth st c)) (shape_of st sh)
           in if None \<in> snd ` set fields then None
              else Some (ZodObject (map (\<lambda>(k, c). (k, the c)) fields) uk))
      | Some (StoredArray inner) \<Rightarrow> map_option ZodArray (read_schema depth st inner)
      | Some (StoredOther s) \<Rightarrow> Some s
      | None \<Rightarrow> None)"

text \<open>
  A store with the schema \<^verbatim>\<open>z.object({ a: z.object({}).passthrough() }).passthrough()\<close>: the
  outer schema is object 0 with shape 0, the inner schema object 1 with shape 1.
\<close>

definition example_store :: store where
  "example_store =
     \<lparr>schema_at = [0 \<mapsto> StoredObject 0 Passthrough, 1 \<mapsto> StoredObject 1 Passthrough],
      shape_at = [0 \<mapsto> [(''a'', 1)], 1 \<mapsto> []],
      next_ref = 2\<rparr>"



section \<open>Notions used to state the properties\<close>

text \<open>Every key that a schema declares in some shape, at any depth and through every kind of schema.\<close>

fun declared_keys :: "ZodTypeAny \<Rightarrow> string set" where
  "declared_keys (ZodObject shape uk) =
     fst ` set shape \<union> (\<Union>(key, child) \<in> set shape. declared_keys child)"
| "declared_keys (ZodArray inner) = declared_keys inner"
| "declared_keys (ZodUnion first others) =
     declared_keys first \<union> (\<Union>option \<in> set others. declared_keys option)"
| "declared_keys (ZodOptional inner) = declared_keys inner"
| "declared_keys schema = {}"

text \<open>
  The leaf issues of an issue as the specification describes the flattening of union failures:
  an \<^verbatim>\<open>invalid_union\<close> issue stands for the leaf issues of the issues of its alternatives, at
  every depth; any other issue is a leaf.
\<close>

fun leaf_issues :: "ZodIssue \<Rightarrow> ZodIssue list" where
  "leaf_issues (InvalidUnion p m alternatives) =
     concat (map (\<lambda>alternative. concat (map leaf_issues alternative)) alternatives)"
| "leaf_issues issue = [issue]"

text \<open>An issue is a union failure; an issue has no union failure among the issues of its alternatives.\<close>

definition is_union_issue :: "ZodIssue \<Rightarrow> bool" where
  "is_union_issue issue = (case issue of InvalidUnion p m alternatives \<Rightarrow> True | _ \<Rightarrow> False)"

definition one_level :: "ZodIssue \<Rightarrow> bool" where
  "one_level issue =
     (case issue of
        InvalidUnion p m alternatives \<Rightarrow> list_all (list_all (\<lambda>z. \<not> is_union_issue z)) alternatives
      | _ \<Rightarrow> True)"

text \<open>
  The schema value of the object \<open>r'\<close> after \<open>deepStrict\<close> has run on the object \<open>r\<close> of the
  store.
\<close>

definition read_after_deepStrict :: "nat \<Rightarrow> store \<Rightarrow> ref \<Rightarrow> ref \<Rightarrow> ZodTypeAny option" where
  "read_after_deepStrict depth st r r' =
     (case deepStrict_store depth r st of
        Some (strictObj, st') \<Rightarrow> read_schema depth st' r'
      | None \<Rightarrow> None)"


section \<open>Example documents, schemas and outside calls\<close>

text \<open>Names of two of the parser's error codes.\<close>

definition code_name :: "nat \<Rightarrow> string" where
  "code_name c = (if c = 4 then ''ValueExpected'' else ''InvalidSymbol'')"

text \<open>
  Scenario C of the specification: the text \<^verbatim>\<open>{"a": }\<close>, for which the parser yields no tree and
  one error, a missing value at offset 6.
\<close>

definition broken_parser :: "string \<Rightarrow> thrown + (Node option \<times> ParseError list)" where
  "broken_parser src = Inr (None, [\<lparr>error_code = 4, error_offset = Number 6, error_length = 1\<rparr>])"

text \<open>The document \<^verbatim>\<open>null\<close>.\<close>

definition null_tree :: Node where
  "null_tree = Node TNull (Number 0) (Number 4) (Some JNull) []"

definition null_parser :: "string \<Rightarrow> thrown + (Node option \<times> ParseError list)" where
  "null_parser src = Inr (Some null_tree, [])"

text \<open>A file system with the single file \<^verbatim>\<open>workflow.json\<close>, which holds the text \<^verbatim>\<open>null\<close>.\<close>

definition one_file :: "string \<Rightarrow> string \<Rightarrow> thrown + string" where
  "one_file path encoding =
     (if path = ''workflow.json'' then Inr ''null''
      else Inl (Error ''ENOENT: no such file or directory''))"

text \<open>The schema \<^verbatim>\<open>z.union([z.union([z.string(), z.number()]), z.boolean()])\<close>.\<close>

definition nested_union :: ZodTypeAny where
  "nested_union = ZodUnion (ZodUnion ZodString [ZodNumber]) [ZodBoolean]"


text \<open>
  Scenario B of the specification: the text \<^verbatim>\<open>{"a": 1, "c": true}\<close>, the tree that the parser
  builds for it, and the schema \<^verbatim>\<open>z.object({ a: z.number() }).passthrough()\<close>.
\<close>

definition scenario_b_text :: string where
  "scenario_b_text = ''{\"a\": 1, \"c\": true}''"

definition scenario_b_tree :: Node where
  "scenario_b_tree =
     Node TObject (Number 0) (Number 19) None
       [Some (Node TProperty (Number 1) (Number 6) None
          [Some (Node TString (Number 1) (Number 3) (Some (JStr ''a'')) []),
           Some (Node TNumber (Number 6) (Number 1) (Some (JNum 1)) [])]),
        Some (Node TProperty (Number 9) (Number 9) None
          [Some (Node TString (Number 9) (Number 3) (Some (JStr ''c'')) []),
           Some (Node TBoolean (Number 14) (Number 4) (Some (JBool True)) [])])]"

definition scenario_b_parser :: "string \<Rightarrow> thrown + (Node option \<times> ParseError list)" where
  "scenario_b_parser src = Inr (Some scenario_b_tree, [])"

definition scenario_b_schema :: ZodTypeAny where
  "scenario_b_schema = ZodObject [(''a'', ZodNumber)] Passthrough"

text \<open>
  An open object schema inside an optional, as the field \<^verbatim>\<open>meta\<close> of the workflow schema of the
  repository (\<^verbatim>\<open>meta: WorkflowMetadataSchema.optional()\<close>): the schema
  \<^verbatim>\<open>z.object({ meta: z.object({}).passthrough().optional() }).passthrough()\<close>, the text
  \<^verbatim>\<open>{"meta":{"x":1}}\<close> and the tree that the parser builds for it.
\<close>

definition meta_schema :: ZodTypeAny where
  "meta_schema = ZodObject [(''meta'', ZodOptional (ZodObject [] Passthrough))] Passthrough"

definition meta_text :: string where
  "meta_text = ''{\"meta\":{\"x\":1}}''"

definition meta_tree :: Node where
  "meta_tree =
     Node TObject (Number 0) (Number 16) None
       [Some (Node TProperty (Number 1) (Number 14) None
          [Some (Node TString (Number 1) (Number 6) (Some (JStr ''meta'')) []),
           Some (Node TObject (Number 8) (Number 7) None
             [Some (Node TProperty (Number 9) (Number 5) None
                [Some (Node TString (Number 9) (Number 3) (Some (JStr ''x'')) []),
                 Some (Node TNumber (Number 13) (Number 1) (Some (JNum 1)) [])])])])]"

definition meta_parser :: "string \<Rightarrow> thrown + (Node option \<times> ParseError list)" where
  "meta_parser src = Inr (Some meta_tree, [])"

text \<open>
  An object schema inside an array, as the field \<^verbatim>\<open>nodes\<close> of the workflow schema of the
  repository (\<^verbatim>\<open>nodes: z.array(INodeSchema)\<close>): the schema
  \<^verbatim>\<open>z.object({ nodes: z.array(z.object({}).passthrough()) }).passthrough()\<close>, the text
  \<^verbatim>\<open>{"nodes":[{"x":1}]}\<close> and the tree that the parser builds for it.
\<close>

definition nodes_schema :: ZodTypeAny where
  "nodes_schema = ZodObject [(''nodes'', ZodArray (ZodObject [] Passthrough))] Passthrough"

definition nodes_text :: string where
  "nodes_text = ''{\"nodes\":[{\"x\":1}]}''"

definition nodes_tree :: Node where
  "nodes_tree =
     Node TObject (Number 0) (Number 19) None
       [Some (Node TProperty (Number 1) (Number 17) None
          [Some (Node TString (Number 1) (Number 7) (Some (JStr ''nodes'')) []),
           Some (Node TArray (Number 9) (Number 9) None
             [Some (Node TObject (Number 10) (Number 7) None
                [Some (Node TProperty (Number 11) (Number 5) None
                   [Some (Node TString (Number 11) (Number 3) (Some (JStr ''x'')) []),
                    Some (Node TNumber (Number 15) (Number 1) (Some (JNum 1)) [])])])])])]"

definition nodes_parser :: "string \<Rightarrow> thrown + (Node option \<times> ParseError list)" where
  "nodes_parser src = Inr (Some nodes_tree, [])"

text \<open>
  The text \<^verbatim>\<open>{"a":[10,\<close> LF \<^verbatim>\<open>20]}\<close>, which runs over two lines, the tree that the parser builds for
  it, and the schema \<^verbatim>\<open>z.object({ a: z.string() })\<close>, which accepts neither this document nor the
  next.
\<close>

definition lines_text :: string where
  "lines_text = ''{\"a\":[10,'' @ [LF] @ ''20]}''"

definition lines_tree :: Node where
  "lines_tree =
     Node TObject (Number 0) (Number 14) None
       [Some (Node TProperty (Number 1) (Number 12) None
          [Some (Node TString (Number 1) (Number 3) (Some (JStr ''a'')) []),
           Some (Node TArray (Number 5) (Number 8) None
             [Some (Node TNumber (Number 6) (Number 2) (Some (JNum 10)) []),
              Some (Node TNumber (Number 10) (Number 2) (Some (JNum 20)) [])])])]"

definition lines_parser :: "string \<Rightarrow> thrown + (Node option \<times> ParseError list)" where
  "lines_parser src = Inr (Some lines_tree, [])"

definition string_field_schema :: ZodTypeAny where
  "string_field_schema = ZodObject [(''a'', ZodString)] Strip"

text \<open>
  The text \<^verbatim>\<open>{"a":{"x":1},"a":{"y":2}}\<close>, in which the key \<^verbatim>\<open>a\<close> occurs twice, and the tree that the
  parser builds for it.
\<close>

definition duplicate_text :: string where
  "duplicate_text = ''{\"a\":{\"x\":1},\"a\":{\"y\":2}}''"

definition duplicate_tree :: Node where
  "duplicate_tree =
     Node TObject (Number 0) (Number 25) None
       [Some (Node TProperty (Number 1) (Number 11) None
          [Some (Node TString (Number 1) (Number 3) (Some (JStr ''a'')) []),
           Some (Node TObject (Number 5) (Number 7) None
             [Some (Node TProperty (Number 6) (Number 5) None
                [Some (Node TString (Number 6) (Number 3) (Some (JStr ''x'')) []),
                 Some (Node TNumber (Number 10) (Number 1) (Some (JNum 1)) [])])])]),
        Some (Node TProperty (Number 13) (Number 11) None
          [Some (Node TString (Number 13) (Number 3) (Some (JStr ''a'')) []),
           Some (Node TObject (Number 17) (Number 7) None
             [Some (Node TProperty (Number 18) (Number 5) None
                [Some (Node TString (Number 18) (Number 3) (Some (JStr ''y'')) []),
                 Some (Node TNumber (Number 22) (Number 1) (Some (JNum 2)) [])])])])]"

definition duplicate_parser :: "string \<Rightarrow> thrown + (Node option \<times> ParseError list)" where
  "duplicate_parser src = Inr (Some duplicate_tree, [])"


section \<open>Offset to position: proofs\<close>

lemma split_lines_nonempty: "split_lines s \<noteq> []"
  by (induction s rule: split_lines.induct) (auto split: list.splits elim: push_front.elims)

lemma length_push_front: "ls \<noteq> [] \<Longrightarrow> length (push_front c ls) = length ls"
  by (cases ls) auto

lemma last_push_front:
  "ls \<noteq> [] \<Longrightarrow> last (push_front c ls) = (if tl ls = [] then c # hd ls else last ls)"
  by (cases ls) auto

lemma length_split_lines:
  "length (split_lines s) = Suc (length (filter (\<lambda>c. c = LF) s))"
proof (induction s rule: split_lines.induct)
  case 1
  then show ?case by simp
next
  case (2 c cs)
  show ?case
  proof (cases "c = LF")
    case True
    with 2 show ?thesis by simp
  next
    case notLF: False
    show ?thesis
    proof (cases "c = CR \<and> cs \<noteq> [] \<and> hd cs = LF")
      case True
      then obtain ds where cs: "cs = LF # ds" by (cases cs) auto
      with True notLF 2 show ?thesis by simp
    next
      case False
      with notLF 2 show ?thesis
        by (auto simp add: length_push_front split_lines_nonempty)
    qed
  qed
qed

lemma last_index_of_None: "last_index_of c xs = None \<longleftrightarrow> c \<notin> set xs"
  by (induction xs) (auto split: option.splits)

lemma last_index_of_Some:
  "last_index_of c xs = Some i \<Longrightarrow> i < length xs \<and> xs ! i = c \<and> c \<notin> set (drop (Suc i) xs)"
  by (induction xs arbitrary: i) (auto split: option.splits if_splits simp: last_index_of_None)

lemma single_line_iff: "tl (split_lines s) = [] \<longleftrightarrow> LF \<notin> set s"
proof -
  have "tl (split_lines s) = [] \<longleftrightarrow> length (split_lines s) = 1"
    using split_lines_nonempty[of s] by (cases "split_lines s") auto
  also have "\<dots> \<longleftrightarrow> LF \<notin> set s"
    by (auto simp add: length_split_lines filter_empty_conv)
  finally show ?thesis .
qed

lemma length_last_split_lines:
  "length (last (split_lines s)) =
     (case last_index_of LF s of None \<Rightarrow> length s | Some i \<Rightarrow> length s - Suc i)"
proof (induction s rule: split_lines.induct)
  case 1
  then show ?case by simp
next
  case (2 c cs)
  show ?case
  proof (cases "c = LF")
    case True
    with 2 show ?thesis
      by (simp add: split_lines_nonempty split: option.splits)
  next
    case notLF: False
    show ?thesis
    proof (cases "c = CR \<and> cs \<noteq> [] \<and> hd cs = LF")
      case True
      then obtain ds where cs: "cs = LF # ds" by (cases cs) auto
      with True notLF 2 show ?thesis
        by (simp add: split_lines_nonempty split: option.splits)
    next
      case False
      have hd_single: "tl (split_lines cs) = [] \<Longrightarrow> hd (split_lines cs) = last (split_lines cs)"
        using split_lines_nonempty[of cs] by (cases "split_lines cs") auto
      have IH: "length (last (split_lines cs)) =
          (case last_index_of LF cs of None \<Rightarrow> length cs | Some i \<Rightarrow> length cs - Suc i)"
        using 2(3) False notLF by blast
      have step: "split_lines (c # cs) = push_front c (split_lines cs)"
        using False notLF by auto
      show ?thesis
      proof (cases "last_index_of LF cs")
        case None
        then have "LF \<notin> set cs" by (simp add: last_index_of_None)
        then have "tl (split_lines cs) = []" by (simp add: single_line_iff)
        with None IH notLF show ?thesis
          unfolding step by (simp add: last_push_front split_lines_nonempty hd_single)
      next
        case (Some i)
        then have "LF \<in> set cs" using last_index_of_None[of LF cs] by auto
        then have "tl (split_lines cs) \<noteq> []" by (simp add: single_line_iff)
        with Some IH notLF show ?thesis
          unfolding step by (simp add: last_push_front split_lines_nonempty)
      qed
    qed
  qed
qed

lemma positionFromOffset_in_range:
  assumes "0 \<le> n" and "n \<le> int (length src)"
  shows "positionFromOffset src (Number n) =
           (length (filter (\<lambda>c. c = LF) (take (nat n) src)) + 1,
            (case last_index_of LF (take (nat n) src) of
               None \<Rightarrow> nat n + 1
             | Some i \<Rightarrow> nat n - i))"
proof -
  from assms have len: "length (take (nat n) src) = nat n" by auto
  have col: "length (last (split_lines (take (nat n) src))) + 1 =
      (case last_index_of LF (take (nat n) src) of None \<Rightarrow> nat n + 1 | Some i \<Rightarrow> nat n - i)"
  proof (cases "last_index_of LF (take (nat n) src)")
    case None
    then show ?thesis using len by (simp add: length_last_split_lines)
  next
    case (Some i)
    then have "i < nat n" using last_index_of_Some[OF Some] len by simp
    with Some show ?thesis using len by (simp add: length_last_split_lines)
  qed
  from assms show ?thesis
    using col by (simp add: positionFromOffset_def Let_def length_split_lines)
qed

text \<open>
  Claim C7, as amended. \<open>positionFromOffset\<close> returns \<open>(0, 0)\<close> for an offset that is not a
  number, is negative or lies beyond the length of the text. Otherwise the line is the number
  of line feeds in the prefix of the text that ends at the offset, plus 1 (a carriage return
  before a line feed belongs to the separator), and the column is the offset minus the index of
  the last line feed of that prefix, or the offset plus 1 when the prefix has no line feed.
\<close>

theorem positionFromOffset_line_column:
  "positionFromOffset text offset =
     (case offset of
        NotANumber \<Rightarrow> (0, 0)
      | Number n \<Rightarrow>
          if n < 0 \<or> int (length text) < n then (0, 0)
          else (length (filter (\<lambda>c. c = LF) (take (nat n) text)) + 1,
                (case last_index_of LF (take (nat n) text) of
                   None \<Rightarrow> nat n + 1
                 | Some i \<Rightarrow> nat n - i)))"
proof (cases offset)
  case NotANumber
  then show ?thesis by (simp add: positionFromOffset_def)
next
  case (Number n)
  show ?thesis
  proof (cases "n < 0 \<or> int (length text) < n")
    case True
    with Number show ?thesis by (simp add: positionFromOffset_def)
  next
    case False
    then have "0 \<le> n" and "n \<le> int (length text)" by simp_all
    from positionFromOffset_in_range[OF this] Number False show ?thesis by simp
  qed
qed

text \<open>
  Claim C7 as the specification states it fails: in the text \<open>a LF b\<close> the offset 2 is the
  first character of the second line, so its column is 1, while the offset minus the index of
  the last separator, plus 1, is 2.
\<close>

theorem positionFromOffset_column_counterexample:
  "positionFromOffset [CHR ''a'', LF, CHR ''b''] (Number 2) = (2, 1) \<and>
   column_as_specified [CHR ''a'', LF, CHR ''b''] 2 = Some 2 \<and>
   Some (snd (positionFromOffset [CHR ''a'', LF, CHR ''b''] (Number 2))) \<noteq>
     column_as_specified [CHR ''a'', LF, CHR ''b''] 2"
  by (simp add: positionFromOffset_def column_as_specified_def)


section \<open>The summary: proofs\<close>

lemma zip_swap: "(a, b) \<in> set (zip xs ys) \<longleftrightarrow> (b, a) \<in> set (zip ys xs)"
  by (simp add: in_set_zip) blast

lemma lower_not_upper:
  "b \<in> set ''abcdefghijklmnopqrstuvwxyz'' \<Longrightarrow> b \<notin> set ''ABCDEFGHIJKLMNOPQRSTUVWXYZ''"
  by auto

lemma toLowerChar_lower:
  assumes "b \<in> set ''abcdefghijklmnopqrstuvwxyz''"
  shows "toLowerChar b = b"
proof -
  have "b \<notin> set ''ABCDEFGHIJKLMNOPQRSTUVWXYZ''" using assms by (rule lower_not_upper)
  moreover have "length ''ABCDEFGHIJKLMNOPQRSTUVWXYZ'' = length ''abcdefghijklmnopqrstuvwxyz''"
    by simp
  ultimately have
    "map_of (zip ''ABCDEFGHIJKLMNOPQRSTUVWXYZ'' ''abcdefghijklmnopqrstuvwxyz'') b = None"
    by (simp only: map_of_zip_is_None simp_thms)
  then show ?thesis by (simp only: toLowerChar_def option.case)
qed

lemma toLowerChar_upper:
  assumes "(b, a) \<in> set letter_pairs"
  shows "toLowerChar a = b"
proof -
  from assms have "(a, b) \<in> set (zip ''ABCDEFGHIJKLMNOPQRSTUVWXYZ'' ''abcdefghijklmnopqrstuvwxyz'')"
    unfolding letter_pairs_def by (rule iffD1 [OF zip_swap])
  moreover have
    "distinct (map fst (zip ''ABCDEFGHIJKLMNOPQRSTUVWXYZ'' ''abcdefghijklmnopqrstuvwxyz''))"
    by simp
  ultimately have
    "map_of (zip ''ABCDEFGHIJKLMNOPQRSTUVWXYZ'' ''abcdefghijklmnopqrstuvwxyz'') a = Some b"
    by (rule map_of_is_SomeI [rotated])
  then show ?thesis by (simp only: toLowerChar_def option.case)
qed

lemma toLowerChar_cases: "toLowerChar a = a \<or> (toLowerChar a, a) \<in> set letter_pairs"
proof (cases "map_of (zip ''ABCDEFGHIJKLMNOPQRSTUVWXYZ'' ''abcdefghijklmnopqrstuvwxyz'') a")
  case None
  then show ?thesis by (simp only: toLowerChar_def option.case simp_thms)
next
  case (Some l)
  then have "(a, l) \<in> set (zip ''ABCDEFGHIJKLMNOPQRSTUVWXYZ'' ''abcdefghijklmnopqrstuvwxyz'')"
    by (rule map_of_SomeD)
  then have "(l, a) \<in> set letter_pairs"
    unfolding letter_pairs_def by (rule iffD1 [OF zip_swap])
  moreover from Some have "toLowerChar a = l" by (simp only: toLowerChar_def option.case)
  ultimately show ?thesis by simp
qed

lemma toLowerChar_same_letter:
  assumes "b \<in> set ''abcdefghijklmnopqrstuvwxyz''"
  shows "toLowerChar a = b \<longleftrightarrow> same_letter a b"
proof
  assume "toLowerChar a = b"
  with toLowerChar_cases [of a] show "same_letter a b"
    unfolding same_letter_def by auto
next
  assume "same_letter a b"
  then consider "a = b" | "(a, b) \<in> set letter_pairs" | "(b, a) \<in> set letter_pairs"
    unfolding same_letter_def by blast
  then show "toLowerChar a = b"
  proof cases
    case 1
    with assms show ?thesis by (simp only: toLowerChar_lower)
  next
    case 2
    then have "b \<in> set ''ABCDEFGHIJKLMNOPQRSTUVWXYZ''"
      unfolding letter_pairs_def by (rule set_zip_rightD)
    with lower_not_upper [OF assms] show ?thesis by blast
  next
    case 3
    then show ?thesis by (rule toLowerChar_upper)
  qed
qed

lemma map_toLowerChar_same_letter:
  assumes "set word \<subseteq> set ''abcdefghijklmnopqrstuvwxyz''"
  shows "map toLowerChar mid = word \<longleftrightarrow> list_all2 same_letter mid word"
proof -
  have "map toLowerChar mid = word \<longleftrightarrow> list_all2 (\<lambda>a b. toLowerChar a = b) mid word"
    by (simp add: list_all2_conv_all_nth list_eq_iff_nth_eq)
  also have "\<dots> \<longleftrightarrow> list_all2 same_letter mid word"
  proof
    assume "list_all2 (\<lambda>a b. toLowerChar a = b) mid word"
    then show "list_all2 same_letter mid word"
    proof (rule list.rel_mono_strong)
      fix a b assume "b \<in> set word" and "toLowerChar a = b"
      with assms toLowerChar_same_letter [of b a] show "same_letter a b" by blast
    qed
  next
    assume "list_all2 same_letter mid word"
    then show "list_all2 (\<lambda>a b. toLowerChar a = b) mid word"
    proof (rule list.rel_mono_strong)
      fix a b assume "b \<in> set word" and "same_letter a b"
      with assms toLowerChar_same_letter [of b a] show "toLowerChar a = b" by blast
    qed
  qed
  finally show ?thesis .
qed

lemma js_includes_toLowerCase:
  assumes "set word \<subseteq> set ''abcdefghijklmnopqrstuvwxyz''"
  shows "js_includes (toLowerCase s) word \<longleftrightarrow> contains_ci s word"
proof
  assume "js_includes (toLowerCase s) word"
  then obtain ps ss where "map toLowerChar s = ps @ word @ ss"
    by (auto simp: js_includes_def toLowerCase_def sublist_def)
  then have "\<exists>us vs. s = us @ vs \<and> ps = map toLowerChar us \<and> word @ ss = map toLowerChar vs"
    by (simp only: map_eq_append_conv)
  then obtain pre rest where s: "s = pre @ rest" and rest: "word @ ss = map toLowerChar rest"
    by iprover
  from rest have "\<exists>us vs. rest = us @ vs \<and> word = map toLowerChar us \<and> ss = map toLowerChar vs"
    by (simp only: append_eq_map_conv)
  then obtain mid post where r: "rest = mid @ post" and m: "word = map toLowerChar mid"
    by iprover
  from m have "list_all2 same_letter mid word"
    using map_toLowerChar_same_letter [OF assms, of mid] by simp
  with s r have "s = pre @ mid @ post \<and> list_all2 same_letter mid word"
    by simp
  then show "contains_ci s word" unfolding contains_ci_def by iprover
next
  assume "contains_ci s word"
  then obtain pre mid post where "s = pre @ mid @ post" and "list_all2 same_letter mid word"
    unfolding contains_ci_def by iprover
  then have "s = pre @ mid @ post" and "map toLowerChar mid = word"
    using map_toLowerChar_same_letter [OF assms, of mid] by simp_all
  then have "map toLowerChar s = map toLowerChar pre @ word @ map toLowerChar post"
    by simp
  then show "js_includes (toLowerCase s) word"
    unfolding js_includes_def toLowerCase_def sublist_def by iprover
qed

lemma js_includes_words:
  "js_includes (toLowerCase s) ''missing'' \<longleftrightarrow> contains_ci s ''missing''"
  "js_includes (toLowerCase s) ''required'' \<longleftrightarrow> contains_ci s ''required''"
  "js_includes (toLowerCase s) ''unexpected'' \<longleftrightarrow> contains_ci s ''unexpected''"
  "js_includes (toLowerCase s) ''invalid'' \<longleftrightarrow> contains_ci s ''invalid''"
  by (rule js_includes_toLowerCase, simp)+

lemma group_step_fields:
  "missing (group_step g i) = missing g @ (if category_of i = Missing then [i] else [])"
  "invalid (group_step g i) = invalid g @ (if category_of i = Invalid then [i] else [])"
  "unexpected (group_step g i) = unexpected g @ (if category_of i = Unexpected then [i] else [])"
  "other (group_step g i) = other g @ (if category_of i = Other then [i] else [])"
  by (simp_all add: group_step_def category_of_def js_includes_words)

lemma foldl_group_step:
  "missing (foldl group_step g xs) = missing g @ filter (\<lambda>i. category_of i = Missing) xs"
  "invalid (foldl group_step g xs) = invalid g @ filter (\<lambda>i. category_of i = Invalid) xs"
  "unexpected (foldl group_step g xs) = unexpected g @ filter (\<lambda>i. category_of i = Unexpected) xs"
  "other (foldl group_step g xs) = other g @ filter (\<lambda>i. category_of i = Other) xs"
  by (induction xs arbitrary: g) (simp_all add: group_step_fields)

lemma groupIssuesByCategory_filter:
  "missing (groupIssuesByCategory xs) = filter (\<lambda>i. category_of i = Missing) xs"
  "invalid (groupIssuesByCategory xs) = filter (\<lambda>i. category_of i = Invalid) xs"
  "unexpected (groupIssuesByCategory xs) = filter (\<lambda>i. category_of i = Unexpected) xs"
  "other (groupIssuesByCategory xs) = filter (\<lambda>i. category_of i = Other) xs"
  by (simp_all add: groupIssuesByCategory_def foldl_group_step)

lemma issue_lines_rendered: "issue_lines = rendered_issue"
  by (rule ext) (simp add: issue_lines_def rendered_issue_def truthy_def bulb_def split: option.splits)

lemma category_block_section:
  "category_block ''Missing Required Fields:'' (filter (\<lambda>i. category_of i = Missing) xs) =
     summary_section xs Missing"
  "category_block ''Invalid Values:'' (filter (\<lambda>i. category_of i = Invalid) xs) =
     summary_section xs Invalid"
  "category_block ''Unexpected Fields:'' (filter (\<lambda>i. category_of i = Unexpected) xs) =
     summary_section xs Unexpected"
  "category_block ''Other Issues:'' (filter (\<lambda>i. category_of i = Other) xs) =
     summary_section xs Other"
  by (simp_all add: category_block_def summary_section_def category_header_def Let_def
      issue_lines_rendered)

lemma join_newline_joined: "join [LF] parts = newline_joined parts"
  by (induction parts rule: induct_list012) simp_all

text \<open>
  Claim C8. \<open>createErrorSummary\<close> returns the summary as specified: every issue falls into
  one category by a case-insensitive search of its message (\<open>missing\<close> or \<open>required\<close>, else
  \<open>unexpected\<close>, else \<open>invalid\<close>, else other); the categories that have an issue are rendered in
  the fixed order Missing Required Fields, Invalid Values, Unexpected Fields, Other Issues,
  each as its header and then, in the order of the input, one bullet line per issue and a
  suggestion line where the issue has a suggestion (a set, non-empty string: the source tests
  the field for truthiness); a category without issues is left out, and the summary of no
  issues is the empty string.
\<close>

theorem createErrorSummary_as_specified:
  "createErrorSummary issues = summary_as_specified issues \<and> createErrorSummary [] = []"
proof
  show "createErrorSummary issues = summary_as_specified issues"
    by (simp add: createErrorSummary_def summary_as_specified_def Let_def
        groupIssuesByCategory_filter category_block_section join_newline_joined)
  show "createErrorSummary [] = []"
    by (simp add: createErrorSummary_def groupIssuesByCategory_def category_block_def)
qed



section \<open>The orchestrator: proofs\<close>

text \<open>
  Claim C4. If the parse of the text returns with a syntax error or without a tree,
  \<open>validateJson\<close> returns an invalid result without data whose issues are exactly one per
  reported syntax error, in order: the message is \<open>Syntax error: \<close> followed by the name of the
  error code, the pointer is empty, there is no suggestion, and line and column are resolved
  from the error's offset. The tree evaluation, the strictifier and the schema engine are not
  consulted: the result is the same for every schema, every engine and every tree evaluation,
  so no issue of the structural phase appears.
\<close>

theorem validateJson_syntax_errors:
  assumes "parseTree E text = Inr (tree, errs)" and "errs \<noteq> [] \<or> tree = None"
  shows "validateJson E (JsString text) schema =
           \<lparr>valid = False, data = None,
            errors = map (\<lambda>e. \<lparr>message = ''Syntax error: '' @ printParseErrorCode E (error_code e),
                                 suggestion = None, jsonPointer = [],
                                 line = fst (positionFromOffset text (error_offset e)),
                                 column = snd (positionFromOffset text (error_offset e))\<rparr>) errs\<rparr>
         \<and> validateJson (E\<lparr>getNodeValue := g, array_element := h, schema_parse := f\<rparr>)
               (JsString text) schema' =
           validateJson E (JsString text) schema"
  using assms by (auto simp: validateJson_def syntax_issue_def Let_def)


text \<open>Scenario C of the specification as an instance of claim C4.\<close>

theorem validateJson_syntax_errors_witness:
  "parseTree (reference_externals broken_parser code_name) ''{\"a\": }'' =
     Inr (None, [\<lparr>error_code = 4, error_offset = Number 6, error_length = 1\<rparr>]) \<and>
   validateJson (reference_externals broken_parser code_name) (JsString ''{\"a\": }'') ZodString =
     \<lparr>valid = False, data = None,
      errors = [\<lparr>message = ''Syntax error: ValueExpected'', suggestion = None, jsonPointer = [],
                 line = 1, column = 7\<rparr>]\<rparr>"
  using validateJson_syntax_errors
    [of "reference_externals broken_parser code_name" "''{\"a\": }''" None
        "[\<lparr>error_code = 4, error_offset = Number 6, error_length = 1\<rparr>]" ZodString]
  by (simp add: reference_externals_def broken_parser_def code_name_def positionFromOffset_def)


text \<open>
  Claim C9. When the read of the file throws, \<open>validateJsonFile\<close> returns an invalid
  result without data and with exactly one issue: its message is \<open>File error: \<close> followed by
  the message of the error, its pointer is empty and its position is \<open>(0, 0)\<close>. When the read
  returns the contents, the result is that of \<open>validateJson\<close> on the contents. In both cases
  a result is returned: nothing is thrown.
\<close>

theorem validateJsonFile_result:
  "(readFileSync filePath fileEncoding = Inl e \<longrightarrow>
      validateJsonFile E readFileSync filePath schema fileEncoding =
        \<lparr>valid = False, data = None,
         errors = [\<lparr>message = ''File error: '' @ error_message e, suggestion = None,
                    jsonPointer = [], line = 0, column = 0\<rparr>]\<rparr>) \<and>
   (readFileSync filePath fileEncoding = Inr raw \<longrightarrow>
      validateJsonFile E readFileSync filePath schema fileEncoding =
        validateJson E (JsString raw) schema)"
proof (cases "readFileSync filePath fileEncoding")
  case (Inl thrown)
  then show ?thesis by (simp add: validateJsonFile_def single_failure_def)
next
  case (Inr contents)
  then show ?thesis by (simp add: validateJsonFile_def)
qed


text \<open>Claim C9 on a path that does not exist and on one that does.\<close>

theorem validateJsonFile_result_witness:
  "one_file ''absent.json'' ''utf8'' = Inl (Error ''ENOENT: no such file or directory'') \<and>
   validateJsonFile (reference_externals null_parser code_name) one_file ''absent.json'' ZodNull ''utf8'' =
     \<lparr>valid = False, data = None,
      errors = [\<lparr>message = ''File error: ENOENT: no such file or directory'', suggestion = None,
                 jsonPointer = [], line = 0, column = 0\<rparr>]\<rparr> \<and>
   one_file ''workflow.json'' ''utf8'' = Inr ''null'' \<and>
   validateJsonFile (reference_externals null_parser code_name) one_file ''workflow.json'' ZodNull ''utf8'' =
     \<lparr>valid = True, data = Some JNull, errors = []\<rparr>"
proof -
  have a: "one_file ''absent.json'' ''utf8'' = Inl (Error ''ENOENT: no such file or directory'')"
    by (simp add: one_file_def)
  have b: "one_file ''workflow.json'' ''utf8'' = Inr ''null''"
    by (simp add: one_file_def)
  have c: "validateJson (reference_externals null_parser code_name) (JsString ''null'') ZodNull =
     \<lparr>valid = True, data = Some JNull, errors = []\<rparr>"
    by (simp add: validateJson_def reference_externals_def null_parser_def null_tree_def zod_parse_def)
  from validateJsonFile_result
    [of one_file "''absent.json''" "''utf8''" "Error ''ENOENT: no such file or directory''"
        "reference_externals null_parser code_name" ZodNull "''null''"]
    validateJsonFile_result
    [of one_file "''workflow.json''" "''utf8''" "Error ''ENOENT: no such file or directory''"
        "reference_externals null_parser code_name" ZodNull "''null''"]
  show ?thesis using a b c by (simp add: error_message_def)
qed






text \<open>
  Claim C1 fails, in three ways. \<open>deepStrict\<close> goes through the shapes of object schemas and the
  elements of array schemas only, so the object schema under \<^verbatim>\<open>.optional()\<close> stays open: the
  document \<^verbatim>\<open>{"meta":{"x":1}}\<close>, whose key \<^verbatim>\<open>x\<close> no shape declares, is valid. For a schema with an
  array, line 126 calls \<^verbatim>\<open>schema.element\<close>, which is not a method: the call throws, and the
  document \<^verbatim>\<open>{"nodes":[{"x":1}]}\<close> gets the single issue \<open>Schema error\<close> with the empty pointer. For
  scenario B of the specification the undeclared key \<^verbatim>\<open>c\<close> is rejected, but the engine reports
  it at the path of the object that holds it: the pointer of the issue is the empty pointer
  with position \<open>(1, 1)\<close>, not \<^verbatim>\<open>/c\<close>.
\<close>

theorem validateJson_undeclared_keys:
  "''x'' \<notin> declared_keys meta_schema \<and>
   node_value meta_tree = JObj [(''meta'', JObj [(''x'', JNum 1)])] \<and>
   validateJson (reference_externals meta_parser code_name) (JsString meta_text) meta_schema =
     \<lparr>valid = True, data = Some (JObj [(''meta'', JObj [(''x'', JNum 1)])]), errors = []\<rparr> \<and>
   ''x'' \<notin> declared_keys nodes_schema \<and>
   node_value nodes_tree = JObj [(''nodes'', JArr [JObj [(''x'', JNum 1)]])] \<and>
   validateJson (reference_externals nodes_parser code_name) (JsString nodes_text) nodes_schema =
     \<lparr>valid = False, data = None,
      errors = [\<lparr>message = ''Schema error: schema.element is not a function'', suggestion = None,
                 jsonPointer = [], line = 0, column = 0\<rparr>]\<rparr> \<and>
   ''c'' \<notin> declared_keys scenario_b_schema \<and>
   node_value scenario_b_tree = JObj [(''a'', JNum 1), (''c'', JBool True)] \<and>
   validateJson (reference_externals scenario_b_parser code_name) (JsString scenario_b_text)
       scenario_b_schema =
     \<lparr>valid = False, data = None,
      errors = [\<lparr>message = ''Validation error: Unrecognized key(s) in object: '' @
                             [apostrophe] @ ''c'' @ [apostrophe],
                 suggestion = Some remove_suggestion, jsonPointer = [], line = 1, column = 1\<rparr>]\<rparr> \<and>
   pathToPointer [Key ''c''] = ''/c''"
proof -
  have a1: "''x'' \<notin> declared_keys meta_schema"
    by (simp add: meta_schema_def)
  have a2: "node_value meta_tree = JObj [(''meta'', JObj [(''x'', JNum 1)])]"
    by (simp add: meta_tree_def key_string_def)
  have a3: "validateJson (reference_externals meta_parser code_name) (JsString meta_text) meta_schema =
     \<lparr>valid = True, data = Some (JObj [(''meta'', JObj [(''x'', JNum 1)])]), errors = []\<rparr>"
    by code_simp
  have b1: "''x'' \<notin> declared_keys nodes_schema"
    by (simp add: nodes_schema_def)
  have b2: "node_value nodes_tree = JObj [(''nodes'', JArr [JObj [(''x'', JNum 1)]])]"
    by (simp add: nodes_tree_def key_string_def)
  have b3: "validateJson (reference_externals nodes_parser code_name) (JsString nodes_text) nodes_schema =
     \<lparr>valid = False, data = None,
      errors = [\<lparr>message = ''Schema error: schema.element is not a function'', suggestion = None,
                 jsonPointer = [], line = 0, column = 0\<rparr>]\<rparr>"
    by code_simp
  have c1: "''c'' \<notin> declared_keys scenario_b_schema"
    by (simp add: scenario_b_schema_def)
  have c2: "node_value scenario_b_tree = JObj [(''a'', JNum 1), (''c'', JBool True)]"
    by (simp add: scenario_b_tree_def key_string_def)
  have c3: "validateJson (reference_externals scenario_b_parser code_name) (JsString scenario_b_text)
       scenario_b_schema =
     \<lparr>valid = False, data = None,
      errors = [\<lparr>message = ''Validation error: Unrecognized key(s) in object: '' @
                             [apostrophe] @ ''c'' @ [apostrophe],
                 suggestion = Some remove_suggestion, jsonPointer = [], line = 1, column = 1\<rparr>]\<rparr>"
    by code_simp
  have c4: "pathToPointer [Key ''c''] = ''/c''"
    by (simp add: pathToPointer_def segment_string_def escape_segment_def replace_all_def)
  from a1 a2 a3 b1 b2 b3 c1 c2 c3 c4 show ?thesis by blast
qed


text \<open>
  Where no alternative of a failed union holds a union failure of its own, the issues that
  \<open>validateJson\<close> hands to \<open>handleIssue\<close> are the leaf issues, one each.
\<close>

lemma leaf_issues_non_union: "\<not> is_union_issue z \<Longrightarrow> leaf_issues z = [z]"
  by (cases z) (simp_all add: is_union_issue_def)

lemma concat_leaf_issues_non_union:
  "list_all (\<lambda>z. \<not> is_union_issue z) zs \<Longrightarrow> concat (map leaf_issues zs) = zs"
  by (induction zs) (simp_all add: leaf_issues_non_union)

lemma issues_to_handle_one_level:
  "list_all one_level issues \<Longrightarrow> issues_to_handle issues = concat (map leaf_issues issues)"
proof (induction issues)
  case Nil
  then show ?case by (simp add: issues_to_handle_def)
next
  case (Cons z zs)
  then have rest: "issues_to_handle zs = concat (map leaf_issues zs)" by simp
  have "(case z of InvalidUnion p m alternatives \<Rightarrow> concat alternatives | _ \<Rightarrow> [z]) = leaf_issues z"
  proof (cases z)
    case (InvalidUnion p m alternatives)
    with Cons.prems have "list_all (list_all (\<lambda>z. \<not> is_union_issue z)) alternatives"
      by (simp add: one_level_def)
    then have "map (\<lambda>alternative. concat (map leaf_issues alternative)) alternatives = alternatives"
      by (induction alternatives) (simp_all add: concat_leaf_issues_non_union)
    with InvalidUnion show ?thesis by simp
  qed simp_all
  with rest show ?case by (simp add: issues_to_handle_def)
qed

text \<open>
  Claim C6 fails on a union inside a union. For the schema
  \<^verbatim>\<open>z.union([z.union([z.string(), z.number()]), z.boolean()])\<close> and the document \<^verbatim>\<open>null\<close> the engine
  hands over one \<^verbatim>\<open>invalid_union\<close> issue whose first alternative holds the \<^verbatim>\<open>invalid_union\<close> issue of
  the inner union. \<open>validateJson\<close> replaces the outer issue by the issues of its alternatives and
  hands each of them to \<open>handleIssue\<close> as it is, so the inner union is reported as the single
  issue \<open>Invalid input\<close>, not as its two leaf issues.
\<close>

theorem validateJson_nested_union:
  "zod_issues nested_union [] (Some JNull) =
     [InvalidUnion [] ''Invalid input''
        [[InvalidUnion [] ''Invalid input''
            [[type_mismatch [] ''string'' (Some JNull)], [type_mismatch [] ''number'' (Some JNull)]]],
         [type_mismatch [] ''boolean'' (Some JNull)]]] \<and>
   map zmessage (concat (map leaf_issues (zod_issues nested_union [] (Some JNull)))) =
     [''Expected string, received null'', ''Expected number, received null'',
      ''Expected boolean, received null''] \<and>
   map message (errors (validateJson (reference_externals null_parser code_name)
                          (JsString ''null'') nested_union)) =
     [''Validation error: Invalid input'', ''Validation error: Expected boolean, received null'']"
proof -
  have a: "zod_issues nested_union [] (Some JNull) =
     [InvalidUnion [] ''Invalid input''
        [[InvalidUnion [] ''Invalid input''
            [[type_mismatch [] ''string'' (Some JNull)], [type_mismatch [] ''number'' (Some JNull)]]],
         [type_mismatch [] ''boolean'' (Some JNull)]]]"
    by (simp add: nested_union_def zod_issues_def type_mismatch_def)
  have b: "map zmessage (concat (map leaf_issues (zod_issues nested_union [] (Some JNull)))) =
     [''Expected string, received null'', ''Expected number, received null'',
      ''Expected boolean, received null'']"
    unfolding a by (simp add: type_mismatch_def json_type_def)
  have c: "map message (errors (validateJson (reference_externals null_parser code_name)
                          (JsString ''null'') nested_union)) =
     [''Validation error: Invalid input'', ''Validation error: Expected boolean, received null'']"
    by code_simp
  from a b c show ?thesis by blast
qed




section \<open>The pointer index: proofs\<close>

text \<open>
  The builder gives a property node its entry and does not look below it; an object with one
  member therefore contributes its own entry only.
\<close>

lemma buildPointerMap_property:
  "buildPointerMap (Some (Node TProperty (Number off) len val childs)) src pointer = [pointer \<mapsto> off]"
  by simp

lemma buildPointerMap_single_member:
  "buildPointerMap (Some (Node TObject (Number off) len val [member])) src pointer = [pointer \<mapsto> off]"
  by simp

text \<open>
  Claim C5 fails on a document with an object member. The loop of lines 159-161 takes the children of
  an object node two at a time as key node and value node, but the children that the parser
  builds are property nodes. In the tree of \<^verbatim>\<open>{"a":[10,\<close> LF \<^verbatim>\<open>20]}\<close> the object has one child, so the
  loop finds no pair and the index holds the root only: the pointers \<^verbatim>\<open>/a\<close> and \<^verbatim>\<open>/a/1\<close> of the
  values at offsets 5 and 10, on lines 1 and 2, have no entry, and the issue that \<open>validateJson\<close>
  reports for the value at \<^verbatim>\<open>/a\<close> has the position \<open>(0, 0)\<close>.
\<close>

theorem buildPointerMap_object_members:
  "node_value lines_tree = JObj [(''a'', JArr [JNum 10, JNum 20])] \<and>
   buildPointerMap (Some lines_tree) lines_text [] = [[] \<mapsto> 0] \<and>
   pathToPointer [Key ''a''] = ''/a'' \<and>
   pathToPointer [Key ''a'', Index 1] = ''/a/1'' \<and>
   positionFromOffset lines_text (Number 5) = (1, 6) \<and>
   positionFromOffset lines_text (Number 10) = (2, 1) \<and>
   validateJson (reference_externals lines_parser code_name) (JsString lines_text)
       string_field_schema =
     \<lparr>valid = False, data = None,
      errors = [\<lparr>message = ''Validation error: Expected string, received array'',
                 suggestion = Some (''Expected type '' @ [apostrophe] @ ''string'' @ [apostrophe] @
                                    '', got '' @ [apostrophe] @ ''array'' @ [apostrophe]),
                 jsonPointer = ''/a'', line = 0, column = 0\<rparr>]\<rparr>"
proof -
  have a: "node_value lines_tree = JObj [(''a'', JArr [JNum 10, JNum 20])]"
    by (simp add: lines_tree_def key_string_def)
  have b: "buildPointerMap (Some lines_tree) lines_text [] = [[] \<mapsto> 0]"
    by (simp add: lines_tree_def)
  have c: "pathToPointer [Key ''a''] = ''/a''"
    by (simp add: pathToPointer_def segment_string_def escape_segment_def replace_all_def)
  have d: "pathToPointer [Key ''a'', Index 1] = ''/a/1''"
    by code_simp
  have e: "positionFromOffset lines_text (Number 5) = (1, 6)"
    by (simp add: positionFromOffset_def lines_text_def)
  have f: "positionFromOffset lines_text (Number 10) = (2, 1)"
    by (simp add: positionFromOffset_def lines_text_def)
  have g: "validateJson (reference_externals lines_parser code_name) (JsString lines_text)
       string_field_schema =
     \<lparr>valid = False, data = None,
      errors = [\<lparr>message = ''Validation error: Expected string, received array'',
                 suggestion = Some (''Expected type '' @ [apostrophe] @ ''string'' @ [apostrophe] @
                                    '', got '' @ [apostrophe] @ ''array'' @ [apostrophe]),
                 jsonPointer = ''/a'', line = 0, column = 0\<rparr>]\<rparr>"
    by code_simp
  from a b c d e f g show ?thesis by blast
qed

text \<open>
  Claim C10 fails, by the defect that claim C5 fails by. In the tree of
  \<^verbatim>\<open>{"a":{"x":1},"a":{"y":2}}\<close> the object has the two property nodes as its children; the loop
  takes the first for a key node and the second for a value node, slices the text of the first
  member without its first and last code unit, and stores the offset 13 of the second member
  under that pointer. The index has no entry for \<^verbatim>\<open>/a\<close> or \<^verbatim>\<open>/a/y\<close>, where the claim has the offsets
  of the last occurrence (17 for \<^verbatim>\<open>/a\<close>, which is line 1, column 18), and the issue that
  \<open>validateJson\<close> reports for the value at \<^verbatim>\<open>/a\<close> has the position \<open>(0, 0)\<close>.
\<close>

theorem buildPointerMap_duplicate_keys:
  "node_value duplicate_tree = JObj [(''a'', JObj [(''y'', JNum 2)])] \<and>
   buildPointerMap (Some duplicate_tree) duplicate_text [] =
     [[] \<mapsto> 0, ''/a\":{\"x\":1'' \<mapsto> 13] \<and>
   pathToPointer [Key ''a''] = ''/a'' \<and>
   pathToPointer [Key ''a'', Key ''y''] = ''/a/y'' \<and>
   buildPointerMap (Some duplicate_tree) duplicate_text [] ''/a'' = None \<and>
   buildPointerMap (Some duplicate_tree) duplicate_text [] ''/a/y'' = None \<and>
   positionFromOffset duplicate_text (Number 17) = (1, 18) \<and>
   validateJson (reference_externals duplicate_parser code_name) (JsString duplicate_text)
       string_field_schema =
     \<lparr>valid = False, data = None,
      errors = [\<lparr>message = ''Validation error: Expected string, received object'',
                 suggestion = Some (''Expected type '' @ [apostrophe] @ ''string'' @ [apostrophe] @
                                    '', got '' @ [apostrophe] @ ''object'' @ [apostrophe]),
                 jsonPointer = ''/a'', line = 0, column = 0\<rparr>]\<rparr>"
proof -
  have a: "node_value duplicate_tree = JObj [(''a'', JObj [(''y'', JNum 2)])]"
    by (simp add: duplicate_tree_def key_string_def)
  have b: "buildPointerMap (Some duplicate_tree) duplicate_text [] =
     [[] \<mapsto> 0, ''/a\":{\"x\":1'' \<mapsto> 13]"
    by (simp add: duplicate_tree_def duplicate_text_def decode_key_def slice_def escape_segment_def
        replace_all_def)
  have c: "pathToPointer [Key ''a''] = ''/a''"
    by (simp add: pathToPointer_def segment_string_def escape_segment_def replace_all_def)
  have d: "pathToPointer [Key ''a'', Key ''y''] = ''/a/y''"
    by (simp add: pathToPointer_def segment_string_def escape_segment_def replace_all_def)
  have e: "buildPointerMap (Some duplicate_tree) duplicate_text [] ''/a'' = None"
    unfolding b by simp
  have f: "buildPointerMap (Some duplicate_tree) duplicate_text [] ''/a/y'' = None"
    unfolding b by simp
  have g: "positionFromOffset duplicate_text (Number 17) = (1, 18)"
    by (simp add: positionFromOffset_def duplicate_text_def)
  have h: "validateJson (reference_externals duplicate_parser code_name) (JsString duplicate_text)
       string_field_schema =
     \<lparr>valid = False, data = None,
      errors = [\<lparr>message = ''Validation error: Expected string, received object'',
                 suggestion = Some (''Expected type '' @ [apostrophe] @ ''string'' @ [apostrophe] @
                                    '', got '' @ [apostrophe] @ ''object'' @ [apostrophe]),
                 jsonPointer = ''/a'', line = 0, column = 0\<rparr>]\<rparr>"
    by code_simp
  from a b c d e f g h show ?thesis by blast
qed



section \<open>The schema object of the caller\<close>

text \<open>
  Claim C3 fails on a schema with a nested object schema. In the store that holds
  \<^verbatim>\<open>z.object({ a: z.object({}).passthrough() }).passthrough()\<close> as object 0, \<open>deepStrict\<close> returns the
  new object 2, which stands for the strict schema of the caller's schema.
  But the shape into which line 118 assigns the strict child is the shape of the caller's
  object 0 as well: after the call the caller's schema has a strict child, and rejects the value
  \<^verbatim>\<open>{"a": {"x": 1}}\<close> that it accepted before.
\<close>

theorem deepStrict_store_changes_input:
  "read_schema 3 example_store 0 = Some (ZodObject [(''a'', ZodObject [] Passthrough)] Passthrough) \<and>
   map_option fst (deepStrict_store 3 0 example_store) = Some (Inr 2) \<and>
   read_after_deepStrict 3 example_store 0 2 = Some (ZodObject [(''a'', ZodObject [] Strict)] Strict) \<and>
   strict_schema (ZodObject [(''a'', ZodObject [] Passthrough)] Passthrough) =
     ZodObject [(''a'', ZodObject [] Strict)] Strict \<and>
   read_after_deepStrict 3 example_store 0 0 = Some (ZodObject [(''a'', ZodObject [] Strict)] Passthrough) \<and>
   zod_parse (ZodObject [(''a'', ZodObject [] Passthrough)] Passthrough)
     (JObj [(''a'', JObj [(''x'', JNum 1)])]) = Inr (JObj [(''a'', JObj [(''x'', JNum 1)])]) \<and>
   zod_parse (ZodObject [(''a'', ZodObject [] Strict)] Passthrough)
     (JObj [(''a'', JObj [(''x'', JNum 1)])]) =
     Inl (ZodError [unrecognized_keys [Key ''a''] [''x'']])"
proof -
  have a: "read_schema 3 example_store 0 =
      Some (ZodObject [(''a'', ZodObject [] Passthrough)] Passthrough)"
    by code_simp
  have b: "map_option fst (deepStrict_store 3 0 example_store) = Some (Inr 2)"
    by code_simp
  have c: "read_after_deepStrict 3 example_store 0 2 =
      Some (ZodObject [(''a'', ZodObject [] Strict)] Strict)"
    by code_simp
  have d: "strict_schema (ZodObject [(''a'', ZodObject [] Passthrough)] Passthrough) =
     ZodObject [(''a'', ZodObject [] Strict)] Strict"
    by simp
  have e: "read_after_deepStrict 3 example_store 0 0 =
      Some (ZodObject [(''a'', ZodObject [] Strict)] Passthrough)"
    by code_simp
  have f: "zod_parse (ZodObject [(''a'', ZodObject [] Passthrough)] Passthrough)
     (JObj [(''a'', JObj [(''x'', JNum 1)])]) = Inr (JObj [(''a'', JObj [(''x'', JNum 1)])])"
    by code_simp
  have g: "zod_parse (ZodObject [(''a'', ZodObject [] Strict)] Passthrough)
     (JObj [(''a'', JObj [(''x'', JNum 1)])]) =
     Inl (ZodError [unrecognized_keys [Key ''a''] [''x'']])"
    by code_simp
  from a b c d e f g show ?thesis by blast
qed


end
